theory Spec2Isabelle
  imports
    Main
    "HOL-Library.Char_ord"
    "HOL-Library.List_Lexorder"
    "HOL-Library.AList"
    "HOL-Library.Sublist"
    "HOL-Library.Multiset"
    "HOL-Library.Word"
begin

section \<open>Data model of the book-swap canister (index.ts)\<close>

text \<open>
  Candid \<open>text\<close> is modelled as \<^typ>\<open>string\<close>, \<open>nat64\<close> as \<^typ>\<open>64 word\<close>, a
  \<open>Principal\<close> by its textual form. The four \<open>Record\<close> types, the \<open>Message\<close> variant and
  the four payload records follow lines 26--103 of the source field by field.
\<close>

datatype Principal = Principal (toText: string)

record User =
  userId :: string
  owner :: Principal
  name :: string
  email :: string
  phoneNumber :: string
  createdAt :: string

record Book =
  bookId :: string
  userId :: string
  title :: string
  author :: string
  genre :: string
  description :: string
  imageUrl :: string
  createdAt :: string

record SwapRequest =
  swapRequestId :: string
  ownerId :: string
  requesterId :: string
  bookId :: string
  status :: string
  createdAt :: string

record Feedback =
  feedbackId :: string
  userId :: string
  swapRequestId :: string
  rating :: "64 word"
  comment :: string
  createdAt :: string

datatype Message =
  Success string
  | Error string
  | NotFound string
  | InvalidPayload string

record UserPayload =
  name :: string
  email :: string
  phoneNumber :: string

record BookPayload =
  userId :: string
  title :: string
  author :: string
  genre :: string
  description :: string
  imageUrl :: string

record SwapRequestPayload =
  ownerId :: string
  requesterId :: string
  bookId :: string

record FeedbackPayload =
  userId :: string
  swapRequestId :: string
  rating :: "64 word"
  comment :: string

text \<open>\<open>Result(T, Message)\<close>: \<open>Err\<close> is the left injection, \<open>Ok\<close> the right one.\<close>

abbreviation Err :: "Message \<Rightarrow> Message + 'a" where
  "Err \<equiv> Inl"

abbreviation Ok :: "'a \<Rightarrow> Message + 'a" where
  "Ok \<equiv> Inr"

fun isInvalidPayload :: "Message \<Rightarrow> bool" where
  "isInvalidPayload (InvalidPayload m) = True"
| "isInvalidPayload other = False"

fun isNotFound :: "Message \<Rightarrow> bool" where
  "isNotFound (NotFound m) = True"
| "isNotFound other = False"

subsection \<open>The stable map\<close>

text \<open>
  \<open>StableBTreeMap(i, text, V)\<close> is an ordered map from text keys to values. It is modelled
  as an association list kept in ascending key order (the lexicographic order on strings),
  so that \<open>values()\<close> is the list of values in iteration order. \<open>insert\<close> overwrites the
  value of a key that is present and puts a new key at its place in the order; \<open>get\<close> and
  \<open>remove\<close> go by the key. The canister never relies on the order of \<open>values()\<close> beyond
  what its own sorts do with ties, and no property below depends on which order it is.
\<close>

type_synonym 'v StableBTreeMap = "(string \<times> 'v) list"

definition sbtm_get :: "'v StableBTreeMap \<Rightarrow> string \<Rightarrow> 'v option" where
  "sbtm_get m k = map_of m k"

fun sbtm_insert :: "string \<Rightarrow> 'v \<Rightarrow> 'v StableBTreeMap \<Rightarrow> 'v StableBTreeMap" where
  "sbtm_insert k v [] = [(k, v)]"
| "sbtm_insert k v ((k', v') # m) =
     (if k = k' then (k, v) # m
      else if k < k' then (k, v) # (k', v') # m
      else (k', v') # sbtm_insert k v m)"

definition sbtm_remove :: "string \<Rightarrow> 'v StableBTreeMap \<Rightarrow> 'v StableBTreeMap" where
  "sbtm_remove k m = filter (\<lambda>e. fst e \<noteq> k) m"

definition sbtm_values :: "'v StableBTreeMap \<Rightarrow> 'v list" where
  "sbtm_values m = map snd m"

text \<open>The keys of a stable map are strictly ascending.\<close>

definition sbtm_ok :: "'v StableBTreeMap \<Rightarrow> bool" where
  "sbtm_ok m \<longleftrightarrow> sorted_wrt (<) (map fst m)"

record state =
  usersStorage :: "User StableBTreeMap"
  booksStorage :: "Book StableBTreeMap"
  swapRequestsStorage :: "SwapRequest StableBTreeMap"
  feedbackStorage :: "Feedback StableBTreeMap"

definition init :: state where
  "init = \<lparr>usersStorage = [], booksStorage = [], swapRequestsStorage = [], feedbackStorage = []\<rparr>"

subsection \<open>Text\<close>

text \<open>
  A \<^typ>\<open>string\<close> is the UTF-8 encoding of a Candid \<open>text\<close>, one \<^typ>\<open>char\<close> a byte.
  \<open>includes_text s t\<close> is \<open>s.includes(t)\<close>, the substring test (on well-formed text a
  substring of code units is a substring of bytes and conversely).
  \<open>String.prototype.toLowerCase\<close> is a function of the JavaScript library: it is the
  parameter \<open>toLowerCase\<close> of \<open>searchBooks\<close>.
\<close>

fun includes_text :: "string \<Rightarrow> string \<Rightarrow> bool" where
  "includes_text [] t = (t = [])"
| "includes_text (c # cs) t = (prefix t (c # cs) \<or> includes_text cs t)"

subsection \<open>Validation helpers\<close>

text \<open>
  \<open>whiteSpaces\<close> lists the characters \<open>\s\<close> matches, each in UTF-8: U+0009 to U+000D,
  U+0020, U+00A0, U+1680, U+2000 to U+200A, U+2028, U+2029, U+202F, U+205F, U+3000 and
  U+FEFF. \<open>emailRun s\<close> says that \<open>s\<close> matches \<open>[^\s@]+\<close>: it is not empty and holds neither
  an \<open>@\<close> nor a white-space character. The regular expression
  \<^verbatim>\<open>/^[^\s@]+@[^\s@]+\.[^\s@]+$/\<close> matches a text that splits at some \<open>@\<close> (index \<open>i\<close>) and
  some later dot (index \<open>j\<close>) into three such runs. \<^verbatim>\<open>/^\d{10}$/\<close> matches ten digits
  \<open>0\<close> to \<open>9\<close>.
\<close>

definition whiteSpaces :: "string list" where
  "whiteSpaces =
     [[CHR 0x09], [CHR 0x0A], [CHR 0x0B], [CHR 0x0C], [CHR 0x0D], [CHR 0x20],
      [CHR 0xC2, CHR 0xA0], [CHR 0xE1, CHR 0x9A, CHR 0x80],
      [CHR 0xE2, CHR 0x80, CHR 0x80], [CHR 0xE2, CHR 0x80, CHR 0x81],
      [CHR 0xE2, CHR 0x80, CHR 0x82], [CHR 0xE2, CHR 0x80, CHR 0x83],
      [CHR 0xE2, CHR 0x80, CHR 0x84], [CHR 0xE2, CHR 0x80, CHR 0x85],
      [CHR 0xE2, CHR 0x80, CHR 0x86], [CHR 0xE2, CHR 0x80, CHR 0x87],
      [CHR 0xE2, CHR 0x80, CHR 0x88], [CHR 0xE2, CHR 0x80, CHR 0x89],
      [CHR 0xE2, CHR 0x80, CHR 0x8A], [CHR 0xE2, CHR 0x80, CHR 0xA8],
      [CHR 0xE2, CHR 0x80, CHR 0xA9], [CHR 0xE2, CHR 0x80, CHR 0xAF],
      [CHR 0xE2, CHR 0x81, CHR 0x9F], [CHR 0xE3, CHR 0x80, CHR 0x80],
      [CHR 0xEF, CHR 0xBB, CHR 0xBF]]"

definition emailRun :: "string \<Rightarrow> bool" where
  "emailRun s \<longleftrightarrow>
     s \<noteq> [] \<and> CHR ''@'' \<notin> set s \<and> \<not> list_ex (\<lambda>w. includes_text s w) whiteSpaces"

definition isValidEmail :: "string \<Rightarrow> bool" where
  "isValidEmail e =
     list_ex (\<lambda>i. list_ex (\<lambda>j.
         i < j \<and> e ! i = CHR ''@'' \<and> e ! j = CHR ''.'' \<and>
         emailRun (take i e) \<and>
         emailRun (take (j - Suc i) (drop (Suc i) e)) \<and>
         emailRun (drop (Suc j) e))
       [0..<length e]) [0..<length e]"

definition isDigit :: "char \<Rightarrow> bool" where
  "isDigit c \<longleftrightarrow> CHR ''0'' \<le> c \<and> c \<le> CHR ''9''"

definition isValidPhoneNumber :: "string \<Rightarrow> bool" where
  "isValidPhoneNumber p \<longleftrightarrow> length p = 10 \<and> list_all isDigit p"

subsection \<open>Dates\<close>

text \<open>
  A JavaScript \<open>Date\<close> is seen through the three getters the canister calls. The
  constructor \<open>new Date(text)\<close> is a parameter \<open>newDate\<close> of the queries that parse a stored
  \<open>createdAt\<close>; \<open>new Date()\<close> is the parameter \<open>now\<close>, and \<open>new Date().toISOString()\<close> the
  text parameter \<open>nowIso\<close> of the operations that stamp a record. One call of the canister
  reads one instant: the two \<open>new Date()\<close> of \<open>getFeaturedSwappers\<close> are the same \<open>now\<close>.
  A stored \<open>createdAt\<close> is a stamp \<open>toISOString\<close> printed, so its time is a number.
\<close>

record Date =
  getTime :: int
  getMonth :: nat
  getFullYear :: int

section \<open>Update operations\<close>

text \<open>
  A parameter that the source names like a record field carries a prime here (\<open>userId'\<close>).
  Every update takes the state and returns the result together with the new state. The
  caller (\<open>ic.caller()\<close>), the identifier \<open>uuidv4()\<close> returns and the time stamp
  \<open>new Date().toISOString()\<close> are inputs of the environment, passed as \<open>caller\<close>,
  \<open>uuid\<close> and \<open>nowIso\<close>. \<open>!s\<close> on a text is \<open>s = []\<close>, \<open>!n\<close> on a \<open>nat64\<close> is \<open>n = 0\<close>.
\<close>

definition createUserProfile ::
  "state \<Rightarrow> Principal \<Rightarrow> string \<Rightarrow> string \<Rightarrow> UserPayload \<Rightarrow> (Message + User) \<times> state" where
  "createUserProfile st caller uuid nowIso payload =
     (if UserPayload.name payload = [] \<or> UserPayload.email payload = []
         \<or> UserPayload.phoneNumber payload = []
      then (Err (InvalidPayload ''All fields (name, email, phone number) are required.''), st)
      else if \<not> isValidEmail (UserPayload.email payload)
      then (Err (InvalidPayload ''Invalid email format.''), st)
      else if \<not> isValidPhoneNumber (UserPayload.phoneNumber payload)
      then (Err (InvalidPayload ''Phone number must be a 10-digit number.''), st)
      else if list_ex (\<lambda>user. User.email user = UserPayload.email payload)
                (sbtm_values (usersStorage st))
      then (Err (InvalidPayload ''Email already exists.''), st)
      else
        let newUser =
          \<lparr>User.userId = uuid, User.owner = caller,
           User.name = UserPayload.name payload,
           User.email = UserPayload.email payload,
           User.phoneNumber = UserPayload.phoneNumber payload,
           User.createdAt = nowIso\<rparr>
        in (Ok newUser, st\<lparr>usersStorage := sbtm_insert uuid newUser (usersStorage st)\<rparr>))"

definition updateUserProfile ::
  "state \<Rightarrow> string \<Rightarrow> UserPayload \<Rightarrow> (Message + User) \<times> state" where
  "updateUserProfile st userId' payload =
     (if UserPayload.name payload = [] \<or> UserPayload.email payload = []
         \<or> UserPayload.phoneNumber payload = []
      then (Err (InvalidPayload ''Ensure 'name', 'email', and 'phoneNumber' are provided.''), st)
      else if \<not> isValidEmail (UserPayload.email payload)
      then (Err (InvalidPayload
              ''Invalid email format: Ensure the email is in the correct format.''), st)
      else if list_ex (\<lambda>user. User.email user = UserPayload.email payload
                         \<and> User.userId user \<noteq> userId')
                (sbtm_values (usersStorage st))
      then (Err (InvalidPayload ''Email already exists: Ensure the email is unique.''), st)
      else if \<not> isValidPhoneNumber (UserPayload.phoneNumber payload)
      then (Err (InvalidPayload
              ''Invalid phone number: Ensure the phone number is in the correct format.''), st)
      else
        case sbtm_get (usersStorage st) userId' of
          None \<Rightarrow> (Err (NotFound ''User not found''), st)
        | Some user \<Rightarrow>
            let updatedUser =
              user\<lparr>User.name := UserPayload.name payload,
                   User.email := UserPayload.email payload,
                   User.phoneNumber := UserPayload.phoneNumber payload\<rparr>
            in (Ok updatedUser,
                st\<lparr>usersStorage := sbtm_insert userId' updatedUser (usersStorage st)\<rparr>))"

definition listBook ::
  "state \<Rightarrow> string \<Rightarrow> string \<Rightarrow> BookPayload \<Rightarrow> (Message + Book) \<times> state" where
  "listBook st uuid nowIso payload =
     (if BookPayload.title payload = [] \<or> BookPayload.author payload = []
         \<or> BookPayload.description payload = [] \<or> BookPayload.imageUrl payload = []
      then (Err (InvalidPayload
              ''Ensure 'title', 'author', 'description', and 'imageUrl' are provided.''), st)
      else
        case sbtm_get (usersStorage st) (BookPayload.userId payload) of
          None \<Rightarrow> (Err (NotFound ''User not found''), st)
        | Some user \<Rightarrow>
            let book =
              \<lparr>Book.bookId = uuid,
               Book.userId = BookPayload.userId payload,
               Book.title = BookPayload.title payload,
               Book.author = BookPayload.author payload,
               Book.genre = BookPayload.genre payload,
               Book.description = BookPayload.description payload,
               Book.imageUrl = BookPayload.imageUrl payload,
               Book.createdAt = nowIso\<rparr>
            in (Ok book, st\<lparr>booksStorage := sbtm_insert uuid book (booksStorage st)\<rparr>))"

definition updateBook ::
  "state \<Rightarrow> string \<Rightarrow> BookPayload \<Rightarrow> (Message + Book) \<times> state" where
  "updateBook st bookId' payload =
     (if bookId' = []
      then (Err (InvalidPayload ''Ensure 'bookId' is provided.''), st)
      else
        case sbtm_get (booksStorage st) bookId' of
          None \<Rightarrow> (Err (NotFound ''Book not found''), st)
        | Some book \<Rightarrow>
            let updatedBook =
              book\<lparr>Book.userId := BookPayload.userId payload,
                   Book.title := BookPayload.title payload,
                   Book.author := BookPayload.author payload,
                   Book.genre := BookPayload.genre payload,
                   Book.description := BookPayload.description payload,
                   Book.imageUrl := BookPayload.imageUrl payload\<rparr>
            in (Ok updatedBook,
                st\<lparr>booksStorage := sbtm_insert bookId' updatedBook (booksStorage st)\<rparr>))"

text \<open>
  The duplicate test of \<open>createSwapRequest\<close>: the same owner, requester and book. The
  source runs it over all requests and then once more over the completed ones.
\<close>

definition sameTriple :: "SwapRequestPayload \<Rightarrow> SwapRequest \<Rightarrow> bool" where
  "sameTriple payload swapRequest \<longleftrightarrow>
     SwapRequest.ownerId swapRequest = SwapRequestPayload.ownerId payload \<and>
     SwapRequest.requesterId swapRequest = SwapRequestPayload.requesterId payload \<and>
     SwapRequest.bookId swapRequest = SwapRequestPayload.bookId payload"

definition createSwapRequest ::
  "state \<Rightarrow> string \<Rightarrow> string \<Rightarrow> SwapRequestPayload \<Rightarrow> (Message + SwapRequest) \<times> state" where
  "createSwapRequest st uuid nowIso payload =
     (if SwapRequestPayload.ownerId payload = [] \<or> SwapRequestPayload.requesterId payload = []
         \<or> SwapRequestPayload.bookId payload = []
      then (Err (InvalidPayload
              ''Ensure 'ownerId', 'requesterId', and 'bookId' are provided.''), st)
      else if sbtm_get (usersStorage st) (SwapRequestPayload.ownerId payload) = None
      then (Err (NotFound ''User not found''), st)
      else if sbtm_get (usersStorage st) (SwapRequestPayload.requesterId payload) = None
      then (Err (NotFound ''Requester not found''), st)
      else if sbtm_get (booksStorage st) (SwapRequestPayload.bookId payload) = None
      then (Err (NotFound ''Book not found''), st)
      else
        let swapRequests = sbtm_values (swapRequestsStorage st) in
        if list_ex (sameTriple payload) swapRequests
        then (Err (InvalidPayload
                ''Swap request already exists: Ensure the swap request is unique.''), st)
        else
          let acceptedSwapRequests =
            filter (\<lambda>swapRequest. SwapRequest.status swapRequest = ''Completed'') swapRequests
          in
          if list_ex (sameTriple payload) acceptedSwapRequests
          then (Err (InvalidPayload
                  ''Swap request already exists: Ensure the swap request is unique.''), st)
          else
            let swapRequest =
              \<lparr>SwapRequest.swapRequestId = uuid,
               SwapRequest.ownerId = SwapRequestPayload.ownerId payload,
               SwapRequest.requesterId = SwapRequestPayload.requesterId payload,
               SwapRequest.bookId = SwapRequestPayload.bookId payload,
               SwapRequest.status = ''Pending'',
               SwapRequest.createdAt = nowIso\<rparr>
            in (Ok swapRequest,
                st\<lparr>swapRequestsStorage :=
                     sbtm_insert uuid swapRequest (swapRequestsStorage st)\<rparr>))"

definition updateSwapRequest ::
  "state \<Rightarrow> string \<Rightarrow> SwapRequestPayload \<Rightarrow> (Message + SwapRequest) \<times> state" where
  "updateSwapRequest st swapRequestId' payload =
     (case sbtm_get (swapRequestsStorage st) swapRequestId' of
        None \<Rightarrow> (Err (NotFound ''Swap request not found.''), st)
      | Some swapRequest \<Rightarrow>
          let updatedSwapRequest =
            swapRequest\<lparr>SwapRequest.ownerId := SwapRequestPayload.ownerId payload,
                        SwapRequest.requesterId := SwapRequestPayload.requesterId payload,
                        SwapRequest.bookId := SwapRequestPayload.bookId payload\<rparr>
          in (Ok updatedSwapRequest,
              st\<lparr>swapRequestsStorage :=
                   sbtm_insert swapRequestId' updatedSwapRequest (swapRequestsStorage st)\<rparr>))"

definition acceptSwapRequest :: "state \<Rightarrow> string \<Rightarrow> (Message + SwapRequest) \<times> state" where
  "acceptSwapRequest st swapRequestId' =
     (case sbtm_get (swapRequestsStorage st) swapRequestId' of
        None \<Rightarrow> (Err (NotFound ''Swap request not found.''), st)
      | Some swapRequest \<Rightarrow>
          let updatedSwapRequest = swapRequest\<lparr>SwapRequest.status := ''Completed''\<rparr>
          in (Ok updatedSwapRequest,
              st\<lparr>swapRequestsStorage :=
                   sbtm_insert swapRequestId' updatedSwapRequest (swapRequestsStorage st)\<rparr>))"

definition rejectSwapRequest :: "state \<Rightarrow> string \<Rightarrow> (Message + SwapRequest) \<times> state" where
  "rejectSwapRequest st swapRequestId' =
     (case sbtm_get (swapRequestsStorage st) swapRequestId' of
        None \<Rightarrow> (Err (NotFound ''Swap request not found''), st)
      | Some swapRequest \<Rightarrow>
          let updatedSwapRequest = swapRequest\<lparr>SwapRequest.status := ''Rejected''\<rparr>
          in (Ok updatedSwapRequest,
              st\<lparr>swapRequestsStorage :=
                   sbtm_insert swapRequestId' updatedSwapRequest (swapRequestsStorage st)\<rparr>))"

definition createFeedback ::
  "state \<Rightarrow> string \<Rightarrow> string \<Rightarrow> FeedbackPayload \<Rightarrow> (Message + Feedback) \<times> state" where
  "createFeedback st uuid nowIso payload =
     (if FeedbackPayload.rating payload = 0 \<or> FeedbackPayload.comment payload = []
      then (Err (InvalidPayload ''Ensure 'rating' and 'comment' are provided.''), st)
      else if sbtm_get (usersStorage st) (FeedbackPayload.userId payload) = None
      then (Err (NotFound ''User not found.''), st)
      else if sbtm_get (swapRequestsStorage st) (FeedbackPayload.swapRequestId payload) = None
      then (Err (NotFound ''Swap request not found.''), st)
      else
        let feedback =
          \<lparr>Feedback.feedbackId = uuid,
           Feedback.userId = FeedbackPayload.userId payload,
           Feedback.swapRequestId = FeedbackPayload.swapRequestId payload,
           Feedback.rating = FeedbackPayload.rating payload,
           Feedback.comment = FeedbackPayload.comment payload,
           Feedback.createdAt = nowIso\<rparr>
        in (Ok feedback, st\<lparr>feedbackStorage := sbtm_insert uuid feedback (feedbackStorage st)\<rparr>))"

definition updateFeedback ::
  "state \<Rightarrow> Principal \<Rightarrow> FeedbackPayload \<Rightarrow> (Message + Feedback) \<times> state" where
  "updateFeedback st caller payload =
     (if FeedbackPayload.rating payload = 0 \<or> FeedbackPayload.comment payload = []
      then (Err (InvalidPayload ''Ensure 'rating' and 'comment' are provided.''), st)
      else
        let feedbackId' = toText caller in
        case sbtm_get (feedbackStorage st) feedbackId' of
          None \<Rightarrow> (Err (NotFound ''Feedback not found''), st)
        | Some feedback \<Rightarrow>
            let updatedFeedback =
              feedback\<lparr>Feedback.userId := FeedbackPayload.userId payload,
                       Feedback.swapRequestId := FeedbackPayload.swapRequestId payload,
                       Feedback.rating := FeedbackPayload.rating payload,
                       Feedback.comment := FeedbackPayload.comment payload\<rparr>
            in (Ok updatedFeedback,
                st\<lparr>feedbackStorage :=
                     sbtm_insert feedbackId' updatedFeedback (feedbackStorage st)\<rparr>))"

definition deleteFeedback :: "state \<Rightarrow> string \<Rightarrow> (Message + unit) \<times> state" where
  "deleteFeedback st feedbackId' =
     (case sbtm_get (feedbackStorage st) feedbackId' of
        None \<Rightarrow> (Err (NotFound ''Feedback not found''), st)
      | Some feedback \<Rightarrow>
          (Ok (), st\<lparr>feedbackStorage := sbtm_remove feedbackId' (feedbackStorage st)\<rparr>))"

definition deleteBook :: "state \<Rightarrow> string \<Rightarrow> (Message + unit) \<times> state" where
  "deleteBook st bookId' =
     (case sbtm_get (booksStorage st) bookId' of
        None \<Rightarrow> (Err (NotFound ''Book not found.''), st)
      | Some book \<Rightarrow>
          (Ok (), st\<lparr>booksStorage := sbtm_remove bookId' (booksStorage st)\<rparr>))"

definition deleteSwapRequest :: "state \<Rightarrow> string \<Rightarrow> (Message + unit) \<times> state" where
  "deleteSwapRequest st swapRequestId' =
     (case sbtm_get (swapRequestsStorage st) swapRequestId' of
        None \<Rightarrow> (Err (NotFound ''Swap request not found''), st)
      | Some swapRequest \<Rightarrow>
          (Ok (), st\<lparr>swapRequestsStorage :=
                      sbtm_remove swapRequestId' (swapRequestsStorage st)\<rparr>))"

section \<open>Queries\<close>

definition getUserProfile :: "state \<Rightarrow> string \<Rightarrow> Message + User" where
  "getUserProfile st userId' =
     (case sbtm_get (usersStorage st) userId' of
        None \<Rightarrow> Err (NotFound ''User not found'')
      | Some user \<Rightarrow> Ok user)"

definition getBook :: "state \<Rightarrow> string \<Rightarrow> Message + Book" where
  "getBook st bookId' =
     (case sbtm_get (booksStorage st) bookId' of
        None \<Rightarrow> Err (NotFound ''Book not found'')
      | Some book \<Rightarrow> Ok book)"

definition getSwapRequest :: "state \<Rightarrow> string \<Rightarrow> Message + SwapRequest" where
  "getSwapRequest st swapRequestId' =
     (case sbtm_get (swapRequestsStorage st) swapRequestId' of
        None \<Rightarrow> Err (NotFound ''Swap request not found.'')
      | Some swapRequest \<Rightarrow> Ok swapRequest)"

definition getFeedback :: "state \<Rightarrow> string \<Rightarrow> Message + Feedback" where
  "getFeedback st feedbackId' =
     (case sbtm_get (feedbackStorage st) feedbackId' of
        None \<Rightarrow> Err (NotFound ''Feedback not found'')
      | Some feedback \<Rightarrow> Ok feedback)"

definition searchBooks :: "(string \<Rightarrow> string) \<Rightarrow> state \<Rightarrow> string \<Rightarrow> Message + Book list" where
  "searchBooks toLowerCase st searchTerm =
     (let books =
        filter (\<lambda>book.
            includes_text (toLowerCase (Book.title book)) (toLowerCase searchTerm) \<or>
            includes_text (toLowerCase (Book.author book)) (toLowerCase searchTerm) \<or>
            includes_text (toLowerCase (Book.genre book)) (toLowerCase searchTerm))
          (sbtm_values (booksStorage st))
      in if length books = 0
         then Err (NotFound ''No books found matching the search term.'')
         else Ok books)"

text \<open>
  \<open>xs.sort((a, b) => key(b) - key(a))\<close> is a stable sort by descending key:
  \<^const>\<open>sort_key\<close> (a stable insertion sort) on the negated key. \<open>slice(0, n)\<close> is
  \<^const>\<open>take\<close>.
\<close>

definition createdTime :: "(string \<Rightarrow> Date) \<Rightarrow> Book \<Rightarrow> int" where
  "createdTime newDate book = getTime (newDate (Book.createdAt book))"


subsection \<open>Featured swappers\<close>

record FeaturedSwapper =
  username :: string
  booksSwapped :: nat
  userId :: string
  bookDetails :: "Book option"

definition completedThisMonth :: "(string \<Rightarrow> Date) \<Rightarrow> Date \<Rightarrow> SwapRequest \<Rightarrow> bool" where
  "completedThisMonth newDate now swapRequest \<longleftrightarrow>
     (let swapDate = newDate (SwapRequest.createdAt swapRequest)
      in SwapRequest.status swapRequest = ''Completed'' \<and>
         getMonth swapDate = getMonth now \<and>
         getFullYear swapDate = getFullYear now)"

text \<open>
  \<open>swapCountPerUser\<close> is a JavaScript \<open>Map\<close>: an association list in insertion order,
  \<open>set\<close> is \<^const>\<open>AList.update\<close> (a present key keeps its place, a new one goes to the
  end), \<open>get(k) || 0\<close> is \<open>countOf\<close>. The body of the \<open>forEach\<close> reads both counts before
  it writes either.
\<close>

definition countOf :: "(string \<times> nat) list \<Rightarrow> string \<Rightarrow> nat" where
  "countOf m k = (case map_of m k of None \<Rightarrow> 0 | Some n \<Rightarrow> n)"

definition countSwap :: "(string \<times> nat) list \<Rightarrow> SwapRequest \<Rightarrow> (string \<times> nat) list" where
  "countSwap m swapRequest =
     (let requesterCount = countOf m (SwapRequest.requesterId swapRequest);
          ownerCount = countOf m (SwapRequest.ownerId swapRequest)
      in AList.update (SwapRequest.ownerId swapRequest) (ownerCount + 1)
           (AList.update (SwapRequest.requesterId swapRequest) (requesterCount + 1) m))"

definition swapCountPerUser :: "SwapRequest list \<Rightarrow> (string \<times> nat) list" where
  "swapCountPerUser completedSwapRequests = foldl countSwap [] completedSwapRequests"

definition mostRecentBook :: "(string \<Rightarrow> Date) \<Rightarrow> state \<Rightarrow> string \<Rightarrow> Book option" where
  "mostRecentBook newDate st userId' =
     (case sort_key (\<lambda>book. - createdTime newDate book)
             (filter (\<lambda>book. Book.userId book = userId') (sbtm_values (booksStorage st))) of
        [] \<Rightarrow> None
      | book # rest \<Rightarrow> Some book)"

text \<open>The callback of \<open>map\<close>; \<open>None\<close> is the \<open>undefined\<close> of a user that is not stored.\<close>

definition featuredEntry ::
  "(string \<Rightarrow> Date) \<Rightarrow> state \<Rightarrow> string \<times> nat \<Rightarrow> FeaturedSwapper option" where
  "featuredEntry newDate st entry =
     (case sbtm_get (usersStorage st) (fst entry) of
        None \<Rightarrow> None
      | Some user \<Rightarrow>
          Some \<lparr>FeaturedSwapper.username = User.name user,
                FeaturedSwapper.booksSwapped = snd entry,
                FeaturedSwapper.userId = User.userId user,
                FeaturedSwapper.bookDetails = mostRecentBook newDate st (fst entry)\<rparr>)"

definition getFeaturedSwappers ::
  "(string \<Rightarrow> Date) \<Rightarrow> Date \<Rightarrow> state \<Rightarrow> Message + FeaturedSwapper list" where
  "getFeaturedSwappers newDate now st =
     (let completedSwapRequests =
            filter (completedThisMonth newDate now) (sbtm_values (swapRequestsStorage st));
          featuredSwappers =
            take 5 (map the (filter (\<lambda>user. user \<noteq> None)
              (map (featuredEntry newDate st)
                (sort_key (\<lambda>entry. - int (snd entry))
                  (swapCountPerUser completedSwapRequests)))))
      in if length featuredSwappers = 0
         then Err (NotFound ''No featured swappers found for this month.'')
         else Ok featuredSwappers)"

section \<open>Sequences of calls\<close>

text \<open>
  The update calls of the canister, each with the inputs of its environment. Queries do
  not change the state. \<open>run cs\<close> is the state after the calls \<open>cs\<close>, in order, from the
  empty stores. \<open>uuids cs\<close> lists the identifiers \<open>uuidv4()\<close> was asked to supply.
\<close>

datatype call =
  CreateUserProfile Principal string string UserPayload
  | UpdateUserProfile string UserPayload
  | ListBook string string BookPayload
  | UpdateBook string BookPayload
  | CreateSwapRequest string string SwapRequestPayload
  | UpdateSwapRequest string SwapRequestPayload
  | AcceptSwapRequest string
  | RejectSwapRequest string
  | CreateFeedback string string FeedbackPayload
  | UpdateFeedback Principal FeedbackPayload
  | DeleteFeedback string
  | DeleteBook string
  | DeleteSwapRequest string

fun exec :: "state \<Rightarrow> call \<Rightarrow> state" where
  "exec st (CreateUserProfile caller uuid nowIso payload) =
     snd (createUserProfile st caller uuid nowIso payload)"
| "exec st (UpdateUserProfile userId' payload) = snd (updateUserProfile st userId' payload)"
| "exec st (ListBook uuid nowIso payload) = snd (listBook st uuid nowIso payload)"
| "exec st (UpdateBook bookId' payload) = snd (updateBook st bookId' payload)"
| "exec st (CreateSwapRequest uuid nowIso payload) =
     snd (createSwapRequest st uuid nowIso payload)"
| "exec st (UpdateSwapRequest swapRequestId' payload) =
     snd (updateSwapRequest st swapRequestId' payload)"
| "exec st (AcceptSwapRequest swapRequestId') = snd (acceptSwapRequest st swapRequestId')"
| "exec st (RejectSwapRequest swapRequestId') = snd (rejectSwapRequest st swapRequestId')"
| "exec st (CreateFeedback uuid nowIso payload) = snd (createFeedback st uuid nowIso payload)"
| "exec st (UpdateFeedback caller payload) = snd (updateFeedback st caller payload)"
| "exec st (DeleteFeedback feedbackId') = snd (deleteFeedback st feedbackId')"
| "exec st (DeleteBook bookId') = snd (deleteBook st bookId')"
| "exec st (DeleteSwapRequest swapRequestId') = snd (deleteSwapRequest st swapRequestId')"

definition run :: "call list \<Rightarrow> state" where
  "run cs = foldl exec init cs"

fun uuidOf :: "call \<Rightarrow> string list" where
  "uuidOf (CreateUserProfile caller uuid nowIso payload) = [uuid]"
| "uuidOf (ListBook uuid nowIso payload) = [uuid]"
| "uuidOf (CreateSwapRequest uuid nowIso payload) = [uuid]"
| "uuidOf (CreateFeedback uuid nowIso payload) = [uuid]"
| "uuidOf other = []"

definition uuids :: "call list \<Rightarrow> string list" where
  "uuids cs = concat (map uuidOf cs)"

section \<open>Notions used by the properties\<close>

text \<open>
  The invariant of the user store along a run: ascending keys, every user stored under its
  own \<open>userId\<close>, and no e-mail address held twice.
\<close>

definition usersInv :: "state \<Rightarrow> bool" where
  "usersInv st \<longleftrightarrow>
     sbtm_ok (usersStorage st) \<and>
     (\<forall>e\<in>set (usersStorage st). User.userId (snd e) = fst e) \<and>
     inj_on (\<lambda>e. User.email (snd e)) (set (usersStorage st))"

text \<open>
  \<open>onlyStatusChanged st st' i r v\<close>: in \<open>st'\<close> the request \<open>i\<close> is \<open>r\<close> with status \<open>v\<close> and
  every other field as before, every other request is as in \<open>st\<close>, and so are the three
  other stores.
\<close>

definition onlyStatusChanged :: "state \<Rightarrow> state \<Rightarrow> string \<Rightarrow> SwapRequest \<Rightarrow> string \<Rightarrow> bool" where
  "onlyStatusChanged st st' i r v \<longleftrightarrow>
     (\<exists>r'. sbtm_get (swapRequestsStorage st') i = Some r' \<and>
        SwapRequest.status r' = v \<and>
        SwapRequest.swapRequestId r' = SwapRequest.swapRequestId r \<and>
        SwapRequest.ownerId r' = SwapRequest.ownerId r \<and>
        SwapRequest.requesterId r' = SwapRequest.requesterId r \<and>
        SwapRequest.bookId r' = SwapRequest.bookId r \<and>
        SwapRequest.createdAt r' = SwapRequest.createdAt r) \<and>
     (\<forall>j. j \<noteq> i \<longrightarrow>
        sbtm_get (swapRequestsStorage st') j = sbtm_get (swapRequestsStorage st) j) \<and>
     usersStorage st' = usersStorage st \<and>
     booksStorage st' = booksStorage st \<and>
     feedbackStorage st' = feedbackStorage st"

text \<open>
  Letter case. \<open>sameLetter c d\<close>: the two characters are equal or are the capital and the
  small form of one of the letters A to Z. \<open>containsIgnoringCase s t\<close>: some substring of
  \<open>s\<close> equals \<open>t\<close> up to the case of its letters.
\<close>

definition upperLetters :: string where
  "upperLetters = ''ABCDEFGHIJKLMNOPQRSTUVWXYZ''"

definition lowerLetters :: string where
  "lowerLetters = ''abcdefghijklmnopqrstuvwxyz''"

definition letterCases :: "(char \<times> char) list" where
  "letterCases = zip upperLetters lowerLetters"

definition sameLetter :: "char \<Rightarrow> char \<Rightarrow> bool" where
  "sameLetter c d \<longleftrightarrow> c = d \<or> (c, d) \<in> set letterCases \<or> (d, c) \<in> set letterCases"

definition containsIgnoringCase :: "string \<Rightarrow> string \<Rightarrow> bool" where
  "containsIgnoringCase s t \<longleftrightarrow>
     (\<exists>pre mid post. s = pre @ mid @ post \<and> list_all2 sameLetter mid t)"

text \<open>
  What \<open>String.prototype.toLowerCase\<close> does to a text of ASCII characters: a capital
  letter becomes the small one, every other character stays. \<open>foldsLetters toLowerCase s\<close>
  says that the library function acts so on the text \<open>s\<close>; it does on every ASCII text.
\<close>

definition foldLetter :: "char \<Rightarrow> char" where
  "foldLetter c = (case map_of letterCases c of None \<Rightarrow> c | Some l \<Rightarrow> l)"

definition foldsLetters :: "(string \<Rightarrow> string) \<Rightarrow> string \<Rightarrow> bool" where
  "foldsLetters toLowerCase s \<longleftrightarrow> toLowerCase s = map foldLetter s"

text \<open>
  \<open>takesPart u r\<close>: user \<open>u\<close> is the owner or the requester of \<open>r\<close>. The window of the
  specification, \<open>inMonthWindow newDate now r\<close>: the status of \<open>r\<close> is \<open>Completed\<close> and its
  \<open>createdAt\<close> lies in the calendar month and in the year of \<open>now\<close>.
  \<open>completedSwapsOf newDate now st u\<close> counts the stored requests in the window in which
  \<open>u\<close> takes part; \<open>featuredOf\<close> is the entry reported for such a user.
\<close>

definition takesPart :: "string \<Rightarrow> SwapRequest \<Rightarrow> bool" where
  "takesPart u r \<longleftrightarrow> SwapRequest.ownerId r = u \<or> SwapRequest.requesterId r = u"

definition inMonthWindow :: "(string \<Rightarrow> Date) \<Rightarrow> Date \<Rightarrow> SwapRequest \<Rightarrow> bool" where
  "inMonthWindow newDate now r \<longleftrightarrow>
     SwapRequest.status r = ''Completed'' \<and>
     getMonth (newDate (SwapRequest.createdAt r)) = getMonth now \<and>
     getFullYear (newDate (SwapRequest.createdAt r)) = getFullYear now"

definition completedSwapsOf :: "(string \<Rightarrow> Date) \<Rightarrow> Date \<Rightarrow> state \<Rightarrow> string \<Rightarrow> nat" where
  "completedSwapsOf newDate now st u =
     length (filter (\<lambda>r. inMonthWindow newDate now r \<and> takesPart u r)
               (sbtm_values (swapRequestsStorage st)))"

definition featuredOf :: "(string \<Rightarrow> Date) \<Rightarrow> Date \<Rightarrow> state \<Rightarrow> string \<Rightarrow> User \<Rightarrow> FeaturedSwapper" where
  "featuredOf newDate now st u user =
     \<lparr>FeaturedSwapper.username = User.name user,
      FeaturedSwapper.booksSwapped = completedSwapsOf newDate now st u,
      FeaturedSwapper.userId = User.userId user,
      FeaturedSwapper.bookDetails = mostRecentBook newDate st u\<rparr>"

text \<open>
  The triple (owner, requester, book) of a request, and the triples of the stored requests
  that are not completed. \<open>swapInv\<close> is the invariant of the request store along a run
  without \<open>updateSwapRequest\<close>: ascending keys, and no triple stored twice, in any status.
\<close>

definition tripleOf :: "SwapRequest \<Rightarrow> string \<times> string \<times> string" where
  "tripleOf r = (SwapRequest.ownerId r, SwapRequest.requesterId r, SwapRequest.bookId r)"

definition openTriples :: "state \<Rightarrow> (string \<times> string \<times> string) list" where
  "openTriples st =
     map tripleOf
       (filter (\<lambda>r. SwapRequest.status r \<noteq> ''Completed'') (sbtm_values (swapRequestsStorage st)))"

definition swapInv :: "state \<Rightarrow> bool" where
  "swapInv st \<longleftrightarrow>
     sbtm_ok (swapRequestsStorage st) \<and>
     inj_on (\<lambda>e. tripleOf (snd e)) (set (swapRequestsStorage st))"

fun isUpdateSwapRequest :: "call \<Rightarrow> bool" where
  "isUpdateSwapRequest (UpdateSwapRequest swapRequestId' payload) = True"
| "isUpdateSwapRequest other = False"

section \<open>Example data\<close>

text \<open>
  A reader of the UTC stamps \<open>toISOString\<close> prints, used for the examples: the year and
  the month come from their digits, and the time value is the number all digits of the
  stamp form, which orders stamps as their instants are ordered.
\<close>

definition digitsToInt :: "string \<Rightarrow> int" where
  "digitsToInt s = foldl (\<lambda>n c. if isDigit c then 10 * n + (of_char c - 48) else n) 0 s"

definition exampleDate :: "string \<Rightarrow> Date" where
  "exampleDate s =
     \<lparr>getTime = digitsToInt s,
      getMonth = nat (digitsToInt (take 2 (drop 5 s)) - 1),
      getFullYear = digitsToInt (take 4 s)\<rparr>"

text \<open>
  Identifiers in the shape \<open>uuidv4()\<close> gives them, the anonymous principal, time stamps
  (three in May 2024, one in April 2024, one in May 2023), payloads, and the records the
  example calls store.
\<close>

definition anon :: Principal where "anon = Principal ''2vxsx-fae''"

definition uA :: string where "uA = ''0a000000-0000-4000-8000-000000000001''"

definition uB :: string where "uB = ''0b000000-0000-4000-8000-000000000002''"

definition uC :: string where "uC = ''0c000000-0000-4000-8000-000000000003''"

definition bk1 :: string where "bk1 = ''1a000000-0000-4000-8000-000000000001''"

definition bk2 :: string where "bk2 = ''1b000000-0000-4000-8000-000000000002''"

definition bk3 :: string where "bk3 = ''1c000000-0000-4000-8000-000000000003''"

definition sr1 :: string where "sr1 = ''2a000000-0000-4000-8000-000000000001''"

definition sr2 :: string where "sr2 = ''2b000000-0000-4000-8000-000000000002''"

definition sr3 :: string where "sr3 = ''2c000000-0000-4000-8000-000000000003''"

definition sr4 :: string where "sr4 = ''2d000000-0000-4000-8000-000000000004''"

definition sr5 :: string where "sr5 = ''2e000000-0000-4000-8000-000000000005''"

definition sr6 :: string where "sr6 = ''2f000000-0000-4000-8000-000000000006''"

definition fb1 :: string where "fb1 = ''3a000000-0000-4000-8000-000000000001''"

definition t0 :: string where "t0 = ''2024-05-01T10:00:00.000Z''"

definition t1 :: string where "t1 = ''2024-05-02T11:30:00.000Z''"

definition t2 :: string where "t2 = ''2024-05-03T09:15:00.000Z''"

definition tApril :: string where "tApril = ''2024-04-30T23:59:59.999Z''"

definition tLastYear :: string where "tLastYear = ''2023-05-20T08:00:00.000Z''"

definition ann :: UserPayload where
  "ann = \<lparr>UserPayload.name = ''Ann'', UserPayload.email = ''ann@books.io'',
          UserPayload.phoneNumber = ''0123456789''\<rparr>"

definition bob :: UserPayload where
  "bob = \<lparr>UserPayload.name = ''Bob'', UserPayload.email = ''bob@books.io'',
          UserPayload.phoneNumber = ''0123456780''\<rparr>"

definition cat :: UserPayload where
  "cat = \<lparr>UserPayload.name = ''Cat'', UserPayload.email = ''cat@books.io'',
          UserPayload.phoneNumber = ''0123456781''\<rparr>"

definition dune :: BookPayload where
  "dune = \<lparr>BookPayload.userId = uA, BookPayload.title = ''Dune'',
           BookPayload.author = ''Herbert'', BookPayload.genre = ''SciFi'',
           BookPayload.description = ''Sand'', BookPayload.imageUrl = ''dune.png''\<rparr>"

definition emma :: BookPayload where
  "emma = \<lparr>BookPayload.userId = uA, BookPayload.title = ''Emma'',
           BookPayload.author = ''Austen'', BookPayload.genre = ''Novel'',
           BookPayload.description = ''Match'', BookPayload.imageUrl = ''emma.png''\<rparr>"

definition ulysses :: BookPayload where
  "ulysses = \<lparr>BookPayload.userId = uB, BookPayload.title = ''Ulysses'',
           BookPayload.author = ''Joyce'', BookPayload.genre = [],
           BookPayload.description = ''Dublin'', BookPayload.imageUrl = ''u.png''\<rparr>"

definition untitled :: BookPayload where
  "untitled = dune\<lparr>BookPayload.title := []\<rparr>"

definition orphan :: BookPayload where
  "orphan = dune\<lparr>BookPayload.userId := uC\<rparr>"

definition reqDune :: SwapRequestPayload where
  "reqDune = \<lparr>SwapRequestPayload.ownerId = uA, SwapRequestPayload.requesterId = uB,
              SwapRequestPayload.bookId = bk1\<rparr>"

definition reqEmma :: SwapRequestPayload where
  "reqEmma = \<lparr>SwapRequestPayload.ownerId = uA, SwapRequestPayload.requesterId = uB,
              SwapRequestPayload.bookId = bk2\<rparr>"

definition selfDune :: SwapRequestPayload where
  "selfDune = \<lparr>SwapRequestPayload.ownerId = uA, SwapRequestPayload.requesterId = uA,
              SwapRequestPayload.bookId = bk1\<rparr>"

definition selfEmma :: SwapRequestPayload where
  "selfEmma = \<lparr>SwapRequestPayload.ownerId = uA, SwapRequestPayload.requesterId = uA,
              SwapRequestPayload.bookId = bk2\<rparr>"

definition selfBobDune :: SwapRequestPayload where
  "selfBobDune = \<lparr>SwapRequestPayload.ownerId = uB, SwapRequestPayload.requesterId = uB,
              SwapRequestPayload.bookId = bk1\<rparr>"

definition selfBobEmma :: SwapRequestPayload where
  "selfBobEmma = \<lparr>SwapRequestPayload.ownerId = uB, SwapRequestPayload.requesterId = uB,
              SwapRequestPayload.bookId = bk2\<rparr>"

definition reqBack :: SwapRequestPayload where
  "reqBack = \<lparr>SwapRequestPayload.ownerId = uB, SwapRequestPayload.requesterId = uA,
              SwapRequestPayload.bookId = bk1\<rparr>"

definition reqNoOwner :: SwapRequestPayload where
  "reqNoOwner = \<lparr>SwapRequestPayload.ownerId = uC, SwapRequestPayload.requesterId = uB,
              SwapRequestPayload.bookId = bk1\<rparr>"

definition reqNoRequester :: SwapRequestPayload where
  "reqNoRequester = \<lparr>SwapRequestPayload.ownerId = uA, SwapRequestPayload.requesterId = uC,
              SwapRequestPayload.bookId = bk1\<rparr>"

definition reqBlank :: SwapRequestPayload where
  "reqBlank = \<lparr>SwapRequestPayload.ownerId = [], SwapRequestPayload.requesterId = uB,
              SwapRequestPayload.bookId = bk1\<rparr>"

definition praise :: FeedbackPayload where
  "praise = \<lparr>FeedbackPayload.userId = uB, FeedbackPayload.swapRequestId = sr1,
             FeedbackPayload.rating = 5, FeedbackPayload.comment = ''Smooth swap''\<rparr>"

definition annUser :: User where
  "annUser = \<lparr>User.userId = uA, User.owner = anon, User.name = ''Ann'',
     User.email = ''ann@books.io'', User.phoneNumber = ''0123456789'', User.createdAt = t0\<rparr>"

definition bobUser :: User where
  "bobUser = \<lparr>User.userId = uB, User.owner = anon, User.name = ''Bob'',
     User.email = ''bob@books.io'', User.phoneNumber = ''0123456780'', User.createdAt = t0\<rparr>"

definition duneBook :: Book where
  "duneBook = \<lparr>Book.bookId = bk1, Book.userId = uA, Book.title = ''Dune'',
     Book.author = ''Herbert'', Book.genre = ''SciFi'', Book.description = ''Sand'',
     Book.imageUrl = ''dune.png'', Book.createdAt = t1\<rparr>"

definition emmaBook :: Book where
  "emmaBook = \<lparr>Book.bookId = bk2, Book.userId = uA, Book.title = ''Emma'',
     Book.author = ''Austen'', Book.genre = ''Novel'', Book.description = ''Match'',
     Book.imageUrl = ''emma.png'', Book.createdAt = t2\<rparr>"

definition pendingDune :: SwapRequest where
  "pendingDune =
     \<lparr>SwapRequest.swapRequestId = sr1, SwapRequest.ownerId = uA, SwapRequest.requesterId = uB,
      SwapRequest.bookId = bk1, SwapRequest.status = ''Pending'', SwapRequest.createdAt = t1\<rparr>"

definition annFeatured :: FeaturedSwapper where
  "annFeatured = \<lparr>FeaturedSwapper.username = ''Ann'', FeaturedSwapper.booksSwapped = 3,
     FeaturedSwapper.userId = uA, FeaturedSwapper.bookDetails = Some emmaBook\<rparr>"

definition bobFeatured :: FeaturedSwapper where
  "bobFeatured = \<lparr>FeaturedSwapper.username = ''Bob'', FeaturedSwapper.booksSwapped = 1,
     FeaturedSwapper.userId = uB, FeaturedSwapper.bookDetails = None\<rparr>"

text \<open>
  Call sequences: two users and two books; then one pending request. The sequences built
  on these add a second request that is rewritten onto the first one's triple; delete the
  requested book; rewrite the stored request onto an owner or a requester that is not
  stored, or onto an empty owner; complete three requests of May 2024, one of April 2024
  and one of May 2023 and leave one of May 2024 pending; complete only the requests of
  April 2024 and May 2023; leave one feedback.
\<close>

definition setupCalls :: "call list" where
  "setupCalls = [CreateUserProfile anon uA t0 ann, CreateUserProfile anon uB t0 bob,
     ListBook bk1 t1 dune, ListBook bk2 t2 emma]"

definition requestCalls :: "call list" where
  "requestCalls = setupCalls @ [CreateSwapRequest sr1 t1 reqDune]"

definition dupCalls :: "call list" where
  "dupCalls = requestCalls @ [CreateSwapRequest sr2 t2 reqEmma, UpdateSwapRequest sr2 reqDune]"

definition deletedBookCalls :: "call list" where
  "deletedBookCalls = requestCalls @ [DeleteBook bk1]"

definition noOwnerCalls :: "call list" where
  "noOwnerCalls = requestCalls @ [UpdateSwapRequest sr1 reqNoOwner]"

definition noRequesterCalls :: "call list" where
  "noRequesterCalls = requestCalls @ [UpdateSwapRequest sr1 reqNoRequester]"

definition blankCalls :: "call list" where
  "blankCalls = requestCalls @ [UpdateSwapRequest sr1 reqBlank]"

definition featuredCalls :: "call list" where
  "featuredCalls = requestCalls @
     [CreateSwapRequest sr2 t2 selfDune, CreateSwapRequest sr3 t2 selfEmma,
      CreateSwapRequest sr4 tApril selfBobDune, CreateSwapRequest sr5 tLastYear selfBobEmma,
      CreateSwapRequest sr6 t2 reqBack,
      AcceptSwapRequest sr1, AcceptSwapRequest sr2, AcceptSwapRequest sr3,
      AcceptSwapRequest sr4, AcceptSwapRequest sr5]"

definition staleCalls :: "call list" where
  "staleCalls = requestCalls @
     [CreateSwapRequest sr4 tApril selfBobDune, CreateSwapRequest sr5 tLastYear selfBobEmma,
      AcceptSwapRequest sr4, AcceptSwapRequest sr5]"

definition feedbackCalls :: "call list" where
  "feedbackCalls = requestCalls @ [CreateFeedback fb1 t2 praise]"

text \<open>
  Two Greek words in UTF-8, \<open>odos\<close> (capital omicron, delta, omicron, sigma) and \<open>odosa\<close>
  (the same followed by a capital alpha), and \<open>String.prototype.toLowerCase\<close> on them and
  on ASCII text: a capital sigma that ends a word becomes the final small sigma (U+03C2),
  a capital sigma before a letter the small sigma (U+03C3). A user lists a book with the
  title \<open>odosa\<close>.
\<close>

definition odos :: string where
  "odos = [CHR 0xCE, CHR 0x9F, CHR 0xCE, CHR 0x94, CHR 0xCE, CHR 0x9F, CHR 0xCE, CHR 0xA3]"

definition odosa :: string where
  "odosa = odos @ [CHR 0xCE, CHR 0x91]"

definition lowerGreek :: "string \<Rightarrow> string" where
  "lowerGreek s =
     (if s = odos
      then [CHR 0xCE, CHR 0xBF, CHR 0xCE, CHR 0xB4, CHR 0xCE, CHR 0xBF, CHR 0xCF, CHR 0x82]
      else if s = odosa
      then [CHR 0xCE, CHR 0xBF, CHR 0xCE, CHR 0xB4, CHR 0xCE, CHR 0xBF, CHR 0xCF, CHR 0x83,
            CHR 0xCE, CHR 0xB1]
      else map foldLetter s)"

definition roads :: BookPayload where
  "roads = \<lparr>BookPayload.userId = uA, BookPayload.title = odosa,
            BookPayload.author = ''Anon'', BookPayload.genre = ''Map'',
            BookPayload.description = ''Roads'', BookPayload.imageUrl = ''roads.png''\<rparr>"

definition greekCalls :: "call list" where
  "greekCalls = [CreateUserProfile anon uA t0 ann, ListBook bk1 t1 roads]"

section \<open>Properties of the stable map\<close>

lemma sbtm_get_insert:
  "sbtm_get (sbtm_insert k v m) k' = (if k' = k then Some v else sbtm_get m k')"
  by (induction m) (auto simp: sbtm_get_def)

lemma keys_sbtm_insert: "set (map fst (sbtm_insert k v m)) = insert k (set (map fst m))"
  by (induction m) (force split: if_splits)+

lemma sbtm_ok_insert: "sbtm_ok m \<Longrightarrow> sbtm_ok (sbtm_insert k v m)"
  unfolding sbtm_ok_def
proof (induction m)
  case Nil
  then show ?case by simp
next
  case (Cons e m)
  obtain k' v' where e: "e = (k', v')" by (cases e)
  from Cons.prems have tl: "sorted_wrt (<) (map fst m)" and hd: "\<forall>x\<in>set (map fst m). k' < x"
    by (auto simp: e)
  show ?case
  proof (cases "k = k'")
    case True
    with Cons.prems show ?thesis by (simp add: e)
  next
    case False
    show ?thesis
    proof (cases "k < k'")
      case True
      with Cons.prems \<open>k \<noteq> k'\<close> show ?thesis by (auto simp: e)
    next
      case False
      with \<open>k \<noteq> k'\<close> have "k' < k" by simp
      with hd have "\<forall>x\<in>set (map fst (sbtm_insert k v m)). k' < x"
        unfolding keys_sbtm_insert by simp
      with Cons.IH [OF tl] False \<open>k \<noteq> k'\<close> show ?thesis by (simp add: e)
    qed
  qed
qed

lemma sbtm_ok_distinct: "sbtm_ok m \<Longrightarrow> distinct (map fst m)"
  unfolding sbtm_ok_def by (simp add: strict_sorted_iff)

lemma set_sbtm_insert:
  "sbtm_ok m \<Longrightarrow> set (sbtm_insert k v m) = insert (k, v) {e \<in> set m. fst e \<noteq> k}"
  unfolding sbtm_ok_def
  by (induction m) (force split: if_splits)+

lemma sbtm_get_remove:
  "sbtm_get (sbtm_remove k m) k' = (if k' = k then None else sbtm_get m k')"
  by (induction m) (auto simp: sbtm_get_def sbtm_remove_def)

lemma sbtm_ok_remove: "sbtm_ok m \<Longrightarrow> sbtm_ok (sbtm_remove k m)"
  unfolding sbtm_ok_def sbtm_remove_def by (induction m) auto

lemma set_sbtm_remove: "set (sbtm_remove k m) = {e \<in> set m. fst e \<noteq> k}"
  by (simp add: sbtm_remove_def)

lemma sbtm_get_Some_iff: "sbtm_ok m \<Longrightarrow> sbtm_get m k = Some v \<longleftrightarrow> (k, v) \<in> set m"
  by (simp add: sbtm_get_def sbtm_ok_distinct)

lemma sbtm_get_Some_key: "sbtm_get m k = Some v \<Longrightarrow> k \<in> set (map fst m)"
  unfolding sbtm_get_def by (metis map_of_eq_None_iff option.distinct(1) set_map)

lemma keys_sbtm_remove: "set (map fst (sbtm_remove k m)) \<subseteq> set (map fst m)"
  by (auto simp: sbtm_remove_def)

lemma run_snoc: "run (cs @ [c]) = exec (run cs) c"
  by (simp add: run_def)

lemma list_ex_filter_imp: "list_ex P (filter Q xs) \<Longrightarrow> list_ex P xs"
  by (auto simp: list_ex_iff)

section \<open>The two format checks\<close>

text \<open>
  The index form of \<open>isValidEmail\<close> is the language of the regular expression: a
  non-empty run of \<open>[^\s@]\<close>, an \<open>@\<close>, a second run, a dot, a third run. The phone check
  accepts exactly ten decimal digits.
\<close>

lemma isValidEmail_iff:
  "isValidEmail e \<longleftrightarrow>
     (\<exists>a b c. e = a @ CHR ''@'' # b @ CHR ''.'' # c \<and> emailRun a \<and> emailRun b \<and> emailRun c)"
proof
  assume "isValidEmail e"
  then obtain i j where mem: "i \<in> set [0..<length e]" "j \<in> set [0..<length e]"
    and body: "i < j \<and> e ! i = CHR ''@'' \<and> e ! j = CHR ''.'' \<and>
         emailRun (take i e) \<and>
         emailRun (take (j - Suc i) (drop (Suc i) e)) \<and>
         emailRun (drop (Suc j) e)"
    unfolding isValidEmail_def list_ex_iff by blast
  from mem body have ij: "i < length e" "j < length e" "i < j" by simp_all
  from body have at: "e ! i = CHR ''@''" and dot: "e ! j = CHR ''.''"
    and a: "emailRun (take i e)"
    and b: "emailRun (take (j - Suc i) (drop (Suc i) e))"
    and c: "emailRun (drop (Suc j) e)"
    by blast+
  define d where "d = drop (Suc i) e"
  have e1: "e = take i e @ CHR ''@'' # d"
    unfolding at [symmetric] d_def by (rule id_take_nth_drop [OF ij(1)])
  from ij have k: "j - Suc i < length d" by (simp add: d_def)
  from ij dot have dj: "d ! (j - Suc i) = CHR ''.''" by (simp add: d_def)
  from ij have dd: "drop (Suc (j - Suc i)) d = drop (Suc j) e" by (simp add: d_def)
  have e2: "d = take (j - Suc i) d @ CHR ''.'' # drop (Suc j) e"
    using id_take_nth_drop [OF k] unfolding dj dd .
  have "e = take i e @ CHR ''@'' # take (j - Suc i) d @ CHR ''.'' # drop (Suc j) e"
    using e1 by (simp only: e2 [symmetric])
  with a b c show "\<exists>a b c. e = a @ CHR ''@'' # b @ CHR ''.'' # c \<and> emailRun a \<and> emailRun b \<and> emailRun c"
    unfolding d_def by blast
next
  assume "\<exists>a b c. e = a @ CHR ''@'' # b @ CHR ''.'' # c \<and> emailRun a \<and> emailRun b \<and> emailRun c"
  then obtain a b c where e: "e = a @ CHR ''@'' # b @ CHR ''.'' # c"
    and ok: "emailRun a" "emailRun b" "emailRun c"
    by blast
  from ok have ne: "a \<noteq> []" "b \<noteq> []" "c \<noteq> []" by (simp_all add: emailRun_def)
  let ?i = "length a" and ?j = "Suc (length a + length b)"
  from ne(3) obtain x xs where "c = x # xs" by (cases c) auto
  then have "length e = length a + length b + length xs + 3" by (simp add: e)
  then have mem: "?i \<in> set [0..<length e]" "?j \<in> set [0..<length e]"
    by simp_all
  have f: "?i < ?j" "e ! ?i = CHR ''@''" "e ! ?j = CHR ''.''" "take ?i e = a"
    "take (?j - Suc ?i) (drop (Suc ?i) e) = b" "drop (Suc ?j) e = c"
    by (simp_all add: e nth_append)
  show "isValidEmail e"
    unfolding isValidEmail_def list_ex_iff
    by (rule bexI [OF _ mem(1)], rule bexI [OF _ mem(2)]) (simp only: f ok simp_thms)
qed

lemma isValidEmail_examples:
  "isValidEmail ''ann@books.io'' \<and> \<not> isValidEmail ''ann@books'' \<and>
   \<not> isValidEmail ''an n@books.io'' \<and>
   \<not> isValidEmail (''dan'' @ [CHR 0xC2, CHR 0xA0] @ ''x@books.io'')"
  by code_simp

lemma isValidPhoneNumber_iff:
  "isValidPhoneNumber p \<longleftrightarrow> length p = 10 \<and> (\<forall>ch \<in> set p. ch \<in> set ''0123456789'')"
proof -
  have "isDigit ch \<longleftrightarrow> ch \<in> set ''0123456789''" for ch
  proof (cases ch)
    case (Char b0 b1 b2 b3 b4 b5 b6 b7)
    then show ?thesis
      by (cases b0; cases b1; cases b2; cases b3; cases b4; cases b5; cases b6; cases b7)
         (simp_all add: isDigit_def less_eq_char_def)
  qed
  then show ?thesis by (simp add: isValidPhoneNumber_def list_all_iff)
qed

section \<open>Swap requests\<close>

subsection \<open>Uniqueness of the triple of an open request\<close>

text \<open>
  Every call but \<open>updateSwapRequest\<close> keeps the triples of the stored requests distinct:
  \<open>createSwapRequest\<close> refuses a stored triple, accepting and rejecting change the status
  only, deleting removes a request.
\<close>

lemma swapInv_insert_new:
  assumes "swapInv st"
    and "\<forall>e\<in>set (swapRequestsStorage st). tripleOf (snd e) \<noteq> tripleOf r"
  shows "swapInv (st\<lparr>swapRequestsStorage := sbtm_insert k r (swapRequestsStorage st)\<rparr>)"
proof -
  from assms have ok: "sbtm_ok (swapRequestsStorage st)" by (simp add: swapInv_def)
  have "inj_on (\<lambda>e. tripleOf (snd e)) (insert (k, r) {e \<in> set (swapRequestsStorage st). fst e \<noteq> k})"
    using assms unfolding swapInv_def inj_on_def by auto
  with ok show ?thesis
    by (simp add: swapInv_def set_sbtm_insert [OF ok] sbtm_ok_insert)
qed

lemma swapInv_insert_same:
  assumes "swapInv st" and "sbtm_get (swapRequestsStorage st) k = Some r"
    and "tripleOf r' = tripleOf r"
  shows "swapInv (st\<lparr>swapRequestsStorage := sbtm_insert k r' (swapRequestsStorage st)\<rparr>)"
proof -
  from assms have ok: "sbtm_ok (swapRequestsStorage st)" by (simp add: swapInv_def)
  from assms(2) have mem: "(k, r) \<in> set (swapRequestsStorage st)"
    using sbtm_get_Some_iff [OF ok] by simp
  have "tripleOf (snd e) \<noteq> tripleOf r'"
    if "e \<in> set (swapRequestsStorage st)" "fst e \<noteq> k" for e
  proof
    assume "tripleOf (snd e) = tripleOf r'"
    with assms(3) have "tripleOf (snd e) = tripleOf (snd (k, r))" by simp
    with assms(1) that(1) mem have "e = (k, r)" unfolding swapInv_def inj_on_def by blast
    with that(2) show False by simp
  qed
  then have "tripleOf (snd (k, r')) \<notin>
      (\<lambda>e. tripleOf (snd e)) ` ({e \<in> set (swapRequestsStorage st). fst e \<noteq> k} - {(k, r')})"
    by fastforce
  moreover have "inj_on (\<lambda>e. tripleOf (snd e)) {e \<in> set (swapRequestsStorage st). fst e \<noteq> k}"
    using assms(1) unfolding swapInv_def by (auto intro: inj_on_subset)
  ultimately have "inj_on (\<lambda>e. tripleOf (snd e))
      (insert (k, r') {e \<in> set (swapRequestsStorage st). fst e \<noteq> k})"
    by (simp only: inj_on_insert) simp
  with ok show ?thesis
    by (simp add: swapInv_def set_sbtm_insert [OF ok] sbtm_ok_insert)
qed

lemma swapInv_remove:
  assumes "swapInv st"
  shows "swapInv (st\<lparr>swapRequestsStorage := sbtm_remove k (swapRequestsStorage st)\<rparr>)"
  using assms unfolding swapInv_def
  by (auto simp: sbtm_ok_remove set_sbtm_remove inj_on_def)

lemma swapInv_other:
  "swapInv st \<Longrightarrow> swapRequestsStorage st' = swapRequestsStorage st \<Longrightarrow> swapInv st'"
  by (simp add: swapInv_def)

lemma swapInv_exec:
  assumes "swapInv st" and "\<not> isUpdateSwapRequest c"
  shows "swapInv (exec st c)"
proof (cases c)
  case (CreateSwapRequest uuid nowIso p)
  show ?thesis
  proof (cases "fst (createSwapRequest st uuid nowIso p)")
    case (Inl e)
    then have "snd (createSwapRequest st uuid nowIso p) = st"
      by (auto simp: createSwapRequest_def Let_def split: if_splits)
    with assms CreateSwapRequest show ?thesis by simp
  next
    case (Inr r)
    then have new: "\<not> list_ex (sameTriple p) (sbtm_values (swapRequestsStorage st))"
      and r: "tripleOf r = (SwapRequestPayload.ownerId p, SwapRequestPayload.requesterId p,
                SwapRequestPayload.bookId p)"
      and st': "snd (createSwapRequest st uuid nowIso p)
          = st\<lparr>swapRequestsStorage := sbtm_insert uuid r (swapRequestsStorage st)\<rparr>"
      by (auto simp: createSwapRequest_def Let_def tripleOf_def split: if_splits)
    from new r have "\<forall>e\<in>set (swapRequestsStorage st). tripleOf (snd e) \<noteq> tripleOf r"
      by (auto simp: list_ex_iff sbtm_values_def sameTriple_def tripleOf_def)
    from swapInv_insert_new [OF assms(1) this] CreateSwapRequest st' show ?thesis by simp
  qed
next
  case (UpdateSwapRequest i p)
  with assms(2) show ?thesis by simp
next
  case (AcceptSwapRequest i)
  show ?thesis
  proof (cases "sbtm_get (swapRequestsStorage st) i")
    case None
    with assms AcceptSwapRequest show ?thesis by (simp add: acceptSwapRequest_def)
  next
    case (Some r)
    from swapInv_insert_same [OF assms(1) Some, of "r\<lparr>SwapRequest.status := ''Completed''\<rparr>"]
    show ?thesis using AcceptSwapRequest Some
      by (simp add: acceptSwapRequest_def tripleOf_def Let_def)
  qed
next
  case (RejectSwapRequest i)
  show ?thesis
  proof (cases "sbtm_get (swapRequestsStorage st) i")
    case None
    with assms RejectSwapRequest show ?thesis by (simp add: rejectSwapRequest_def)
  next
    case (Some r)
    from swapInv_insert_same [OF assms(1) Some, of "r\<lparr>SwapRequest.status := ''Rejected''\<rparr>"]
    show ?thesis using RejectSwapRequest Some
      by (simp add: rejectSwapRequest_def tripleOf_def Let_def)
  qed
next
  case (DeleteSwapRequest i)
  with assms(1) swapInv_remove [OF assms(1), of i] show ?thesis
    by (simp add: deleteSwapRequest_def split: option.splits)
qed (use assms(1) in \<open>auto intro!: swapInv_other [OF assms(1)]
      simp: createUserProfile_def updateUserProfile_def listBook_def updateBook_def
        createFeedback_def updateFeedback_def deleteFeedback_def deleteBook_def Let_def
      split: option.splits\<close>)

lemma swapInv_run:
  "\<forall>c\<in>set cs. \<not> isUpdateSwapRequest c \<Longrightarrow> swapInv (run cs)"
proof (induction cs rule: rev_induct)
  case Nil
  show ?case by (simp add: run_def init_def swapInv_def sbtm_ok_def)
next
  case (snoc c cs)
  then show ?case by (simp add: run_snoc swapInv_exec)
qed

lemma openTriples_distinct_without_update:
  assumes "\<forall>c\<in>set cs. \<not> isUpdateSwapRequest c"
  shows "distinct (openTriples (run cs))"
proof -
  from swapInv_run [OF assms] have ok: "sbtm_ok (swapRequestsStorage (run cs))"
    and inj: "inj_on (\<lambda>e. tripleOf (snd e)) (set (swapRequestsStorage (run cs)))"
    by (simp_all add: swapInv_def)
  have "distinct (swapRequestsStorage (run cs))"
    using sbtm_ok_distinct [OF ok] by (simp add: distinct_map)
  with inj have "distinct (map (\<lambda>e. tripleOf (snd e)) (swapRequestsStorage (run cs)))"
    by (simp add: distinct_map)
  then have "distinct (map tripleOf (sbtm_values (swapRequestsStorage (run cs))))"
    by (simp add: sbtm_values_def comp_def)
  then have "distinct (map tripleOf
      (filter (\<lambda>r. SwapRequest.status r \<noteq> ''Completed'') (sbtm_values (swapRequestsStorage (run cs)))))"
    by (rule distinct_map_filter)
  then show ?thesis
    unfolding openTriples_def .
qed

text \<open>
  C1. The claim: along every sequence of calls from the empty state at most one request
  that is not completed exists for a triple of owner, requester and book, and every
  operation, \<open>updateSwapRequest\<close> included, keeps it so. \<open>createSwapRequest\<close> refuses a
  triple that is stored, but \<open>updateSwapRequest\<close> writes the triple of its payload without
  that test. After two users, two books and two requests of the same owner and requester
  for the two books, the triples of the open requests are distinct; the call
  \<open>updateSwapRequest\<close> of the second request with the triple of the first leaves two
  pending requests with one triple. (Without \<open>updateSwapRequest\<close> the invariant holds, see
  \<open>openTriples_distinct_without_update\<close>.)
\<close>

theorem updateSwapRequest_breaks_uniqueness:
  "distinct (openTriples (run (butlast dupCalls))) \<and>
   last dupCalls = UpdateSwapRequest sr2 reqDune \<and>
   openTriples (run dupCalls) = [(uA, uB, bk1), (uA, uB, bk1)] \<and>
   \<not> distinct (openTriples (run dupCalls))"
  by code_simp

subsection \<open>Creating a request twice\<close>

text \<open>
  The claim C2 as stated, that a second \<open>createSwapRequest\<close> for a stored triple answers
  \<open>InvalidPayload\<close> in every state, fails where the requested book has been deleted: the
  existence tests come first and the answer is \<open>NotFound\<close>.
\<close>

theorem createSwapRequest_duplicate_counterexample:
  "list_ex (sameTriple reqDune) (sbtm_values (swapRequestsStorage (run deletedBookCalls))) \<and>
   createSwapRequest (run deletedBookCalls) sr2 t2 reqDune
     = (Err (NotFound ''Book not found''), run deletedBookCalls)"
  by code_simp

text \<open>
  C2 (amended). In every state in which a request with the triple of the payload is stored,
  in any status, \<open>createSwapRequest\<close> returns an error and leaves the whole state unchanged.
  The error is the \<open>InvalidPayload\<close> of the required fields when one of the three
  identifiers is empty; otherwise \<open>NotFound\<close> when the owner is not stored, else when the
  requester is not stored, else when the book is not stored; otherwise the
  \<open>InvalidPayload\<close> that says the request exists.
\<close>

theorem createSwapRequest_duplicate:
  assumes "list_ex (sameTriple p) (sbtm_values (swapRequestsStorage st))"
  shows "createSwapRequest st uuid nowIso p =
     (Err (if SwapRequestPayload.ownerId p = [] \<or> SwapRequestPayload.requesterId p = []
              \<or> SwapRequestPayload.bookId p = []
           then InvalidPayload ''Ensure 'ownerId', 'requesterId', and 'bookId' are provided.''
           else if sbtm_get (usersStorage st) (SwapRequestPayload.ownerId p) = None
           then NotFound ''User not found''
           else if sbtm_get (usersStorage st) (SwapRequestPayload.requesterId p) = None
           then NotFound ''Requester not found''
           else if sbtm_get (booksStorage st) (SwapRequestPayload.bookId p) = None
           then NotFound ''Book not found''
           else InvalidPayload
                  ''Swap request already exists: Ensure the swap request is unique.''),
      st)"
  using assms by (simp add: createSwapRequest_def Let_def)

theorem createSwapRequest_duplicate_witness:
  "list_ex (sameTriple reqDune) (sbtm_values (swapRequestsStorage (run requestCalls))) \<and>
   createSwapRequest (run requestCalls) sr2 t2 reqDune =
     (Err (InvalidPayload ''Swap request already exists: Ensure the swap request is unique.''),
      run requestCalls) \<and>
   list_ex (sameTriple reqDune) (sbtm_values (swapRequestsStorage (run deletedBookCalls))) \<and>
   createSwapRequest (run deletedBookCalls) sr2 t2 reqDune =
     (Err (NotFound ''Book not found''), run deletedBookCalls) \<and>
   list_ex (sameTriple reqNoRequester)
     (sbtm_values (swapRequestsStorage (run noRequesterCalls))) \<and>
   createSwapRequest (run noRequesterCalls) sr2 t2 reqNoRequester =
     (Err (NotFound ''Requester not found''), run noRequesterCalls) \<and>
   list_ex (sameTriple reqNoOwner) (sbtm_values (swapRequestsStorage (run noOwnerCalls))) \<and>
   createSwapRequest (run noOwnerCalls) sr2 t2 reqNoOwner =
     (Err (NotFound ''User not found''), run noOwnerCalls) \<and>
   list_ex (sameTriple reqBlank) (sbtm_values (swapRequestsStorage (run blankCalls))) \<and>
   createSwapRequest (run blankCalls) sr2 t2 reqBlank =
     (Err (InvalidPayload ''Ensure 'ownerId', 'requesterId', and 'bookId' are provided.''),
      run blankCalls)"
proof -
  have h1: "list_ex (sameTriple reqDune) (sbtm_values (swapRequestsStorage (run requestCalls)))"
    by code_simp
  have h2: "list_ex (sameTriple reqDune)
      (sbtm_values (swapRequestsStorage (run deletedBookCalls)))"
    by code_simp
  have h3: "list_ex (sameTriple reqNoRequester)
      (sbtm_values (swapRequestsStorage (run noRequesterCalls)))"
    by code_simp
  have h4: "list_ex (sameTriple reqNoOwner) (sbtm_values (swapRequestsStorage (run noOwnerCalls)))"
    by code_simp
  have h5: "list_ex (sameTriple reqBlank) (sbtm_values (swapRequestsStorage (run blankCalls)))"
    by code_simp
  have c1: "(if SwapRequestPayload.ownerId reqDune = [] \<or> SwapRequestPayload.requesterId reqDune = []
              \<or> SwapRequestPayload.bookId reqDune = []
           then InvalidPayload ''Ensure 'ownerId', 'requesterId', and 'bookId' are provided.''
           else if sbtm_get (usersStorage (run requestCalls)) (SwapRequestPayload.ownerId reqDune) = None
           then NotFound ''User not found''
           else if sbtm_get (usersStorage (run requestCalls)) (SwapRequestPayload.requesterId reqDune) = None
           then NotFound ''Requester not found''
           else if sbtm_get (booksStorage (run requestCalls)) (SwapRequestPayload.bookId reqDune) = None
           then NotFound ''Book not found''
           else InvalidPayload
                  ''Swap request already exists: Ensure the swap request is unique.'')
      = InvalidPayload ''Swap request already exists: Ensure the swap request is unique.''"
    by code_simp
  have c2: "(if SwapRequestPayload.ownerId reqDune = [] \<or> SwapRequestPayload.requesterId reqDune = []
              \<or> SwapRequestPayload.bookId reqDune = []
           then InvalidPayload ''Ensure 'ownerId', 'requesterId', and 'bookId' are provided.''
           else if sbtm_get (usersStorage (run deletedBookCalls)) (SwapRequestPayload.ownerId reqDune) = None
           then NotFound ''User not found''
           else if sbtm_get (usersStorage (run deletedBookCalls)) (SwapRequestPayload.requesterId reqDune) = None
           then NotFound ''Requester not found''
           else if sbtm_get (booksStorage (run deletedBookCalls)) (SwapRequestPayload.bookId reqDune) = None
           then NotFound ''Book not found''
           else InvalidPayload
                  ''Swap request already exists: Ensure the swap request is unique.'')
      = NotFound ''Book not found''"
    by code_simp
  have c3: "(if SwapRequestPayload.ownerId reqNoRequester = [] \<or> SwapRequestPayload.requesterId reqNoRequester = []
              \<or> SwapRequestPayload.bookId reqNoRequester = []
           then InvalidPayload ''Ensure 'ownerId', 'requesterId', and 'bookId' are provided.''
           else if sbtm_get (usersStorage (run noRequesterCalls)) (SwapRequestPayload.ownerId reqNoRequester) = None
           then NotFound ''User not found''
           else if sbtm_get (usersStorage (run noRequesterCalls)) (SwapRequestPayload.requesterId reqNoRequester) = None
           then NotFound ''Requester not found''
           else if sbtm_get (booksStorage (run noRequesterCalls)) (SwapRequestPayload.bookId reqNoRequester) = None
           then NotFound ''Book not found''
           else InvalidPayload
                  ''Swap request already exists: Ensure the swap request is unique.'')
      = NotFound ''Requester not found''"
    by code_simp
  have c4: "(if SwapRequestPayload.ownerId reqNoOwner = [] \<or> SwapRequestPayload.requesterId reqNoOwner = []
              \<or> SwapRequestPayload.bookId reqNoOwner = []
           then InvalidPayload ''Ensure 'ownerId', 'requesterId', and 'bookId' are provided.''
           else if sbtm_get (usersStorage (run noOwnerCalls)) (SwapRequestPayload.ownerId reqNoOwner) = None
           then NotFound ''User not found''
           else if sbtm_get (usersStorage (run noOwnerCalls)) (SwapRequestPayload.requesterId reqNoOwner) = None
           then NotFound ''Requester not found''
           else if sbtm_get (booksStorage (run noOwnerCalls)) (SwapRequestPayload.bookId reqNoOwner) = None
           then NotFound ''Book not found''
           else InvalidPayload
                  ''Swap request already exists: Ensure the swap request is unique.'')
      = NotFound ''User not found''"
    by code_simp
  have c5: "(if SwapRequestPayload.ownerId reqBlank = [] \<or> SwapRequestPayload.requesterId reqBlank = []
              \<or> SwapRequestPayload.bookId reqBlank = []
           then InvalidPayload ''Ensure 'ownerId', 'requesterId', and 'bookId' are provided.''
           else if sbtm_get (usersStorage (run blankCalls)) (SwapRequestPayload.ownerId reqBlank) = None
           then NotFound ''User not found''
           else if sbtm_get (usersStorage (run blankCalls)) (SwapRequestPayload.requesterId reqBlank) = None
           then NotFound ''Requester not found''
           else if sbtm_get (booksStorage (run blankCalls)) (SwapRequestPayload.bookId reqBlank) = None
           then NotFound ''Book not found''
           else InvalidPayload
                  ''Swap request already exists: Ensure the swap request is unique.'')
      = InvalidPayload ''Ensure 'ownerId', 'requesterId', and 'bookId' are provided.''"
    by code_simp
  note d1 = createSwapRequest_duplicate [OF h1, where uuid = sr2 and nowIso = t2, unfolded c1]
  note d2 = createSwapRequest_duplicate [OF h2, where uuid = sr2 and nowIso = t2, unfolded c2]
  note d3 = createSwapRequest_duplicate [OF h3, where uuid = sr2 and nowIso = t2, unfolded c3]
  note d4 = createSwapRequest_duplicate [OF h4, where uuid = sr2 and nowIso = t2, unfolded c4]
  note d5 = createSwapRequest_duplicate [OF h5, where uuid = sr2 and nowIso = t2, unfolded c5]
  from h1 d1 h2 d2 h3 d3 h4 d4 h5 d5 show ?thesis by (intro conjI)
qed

subsection \<open>Accepting and rejecting\<close>

text \<open>
  C4. For an identifier that is not stored, \<open>acceptSwapRequest\<close> and \<open>rejectSwapRequest\<close>
  return \<open>NotFound\<close> and the state is unchanged. For a stored request, accepting sets the
  status to \<open>Completed\<close> and rejecting to \<open>Rejected\<close>; the other fields of the request
  (\<open>swapRequestId\<close>, \<open>ownerId\<close>, \<open>requesterId\<close>, \<open>bookId\<close>, \<open>createdAt\<close>), every other
  request and the stores of users, books and feedback are unchanged.
\<close>

theorem accept_reject_frame:
  "(sbtm_get (swapRequestsStorage st) i = None \<longrightarrow>
      acceptSwapRequest st i = (Err (NotFound ''Swap request not found.''), st) \<and>
      rejectSwapRequest st i = (Err (NotFound ''Swap request not found''), st)) \<and>
   (\<forall>r. sbtm_get (swapRequestsStorage st) i = Some r \<longrightarrow>
      fst (acceptSwapRequest st i) = Ok (r\<lparr>SwapRequest.status := ''Completed''\<rparr>) \<and>
      onlyStatusChanged st (snd (acceptSwapRequest st i)) i r ''Completed'' \<and>
      fst (rejectSwapRequest st i) = Ok (r\<lparr>SwapRequest.status := ''Rejected''\<rparr>) \<and>
      onlyStatusChanged st (snd (rejectSwapRequest st i)) i r ''Rejected'')"
  by (simp add: acceptSwapRequest_def rejectSwapRequest_def onlyStatusChanged_def Let_def
      sbtm_get_insert)

theorem accept_reject_frame_witness:
  "sbtm_get (swapRequestsStorage (run requestCalls)) sr3 = None \<and>
   acceptSwapRequest (run requestCalls) sr3
     = (Err (NotFound ''Swap request not found.''), run requestCalls) \<and>
   rejectSwapRequest (run requestCalls) sr3
     = (Err (NotFound ''Swap request not found''), run requestCalls) \<and>
   sbtm_get (swapRequestsStorage (run requestCalls)) sr1 = Some pendingDune \<and>
   fst (acceptSwapRequest (run requestCalls) sr1)
     = Ok (pendingDune\<lparr>SwapRequest.status := ''Completed''\<rparr>) \<and>
   onlyStatusChanged (run requestCalls) (snd (acceptSwapRequest (run requestCalls) sr1))
     sr1 pendingDune ''Completed'' \<and>
   fst (rejectSwapRequest (run requestCalls) sr1)
     = Ok (pendingDune\<lparr>SwapRequest.status := ''Rejected''\<rparr>) \<and>
   onlyStatusChanged (run requestCalls) (snd (rejectSwapRequest (run requestCalls) sr1))
     sr1 pendingDune ''Rejected''"
proof -
  have h1: "sbtm_get (swapRequestsStorage (run requestCalls)) sr3 = None" by code_simp
  have h2: "sbtm_get (swapRequestsStorage (run requestCalls)) sr1 = Some pendingDune" by code_simp
  from h1 h2
    accept_reject_frame [of "run requestCalls" sr3]
    accept_reject_frame [of "run requestCalls" sr1]
  show ?thesis by blast
qed

section \<open>Users: unique e-mail addresses\<close>

lemma usersInv_create:
  assumes "usersInv st"
  shows "usersInv (snd (createUserProfile st caller uuid nowIso p))"
proof (cases "fst (createUserProfile st caller uuid nowIso p)")
  case (Inl e)
  then have "snd (createUserProfile st caller uuid nowIso p) = st"
    by (auto simp: createUserProfile_def Let_def split: if_splits)
  with assms show ?thesis by simp
next
  case (Inr u)
  then have fresh: "\<forall>e\<in>set (usersStorage st). User.email (snd e) \<noteq> UserPayload.email p"
    and u: "User.userId u = uuid" "User.email u = UserPayload.email p"
    and st': "usersStorage (snd (createUserProfile st caller uuid nowIso p))
                = sbtm_insert uuid u (usersStorage st)"
    by (auto simp: createUserProfile_def Let_def list_ex_iff sbtm_values_def split: if_splits)
  from assms have ok: "sbtm_ok (usersStorage st)" by (simp add: usersInv_def)
  have "inj_on (\<lambda>e. User.email (snd e)) (insert (uuid, u) {e \<in> set (usersStorage st). fst e \<noteq> uuid})"
    using assms fresh u unfolding usersInv_def inj_on_def by auto
  with assms u show ?thesis
    unfolding usersInv_def st' set_sbtm_insert [OF ok]
    by (auto simp: sbtm_ok_insert)
qed

lemma usersInv_update:
  assumes "usersInv st"
  shows "usersInv (snd (updateUserProfile st uid p))"
proof (cases "fst (updateUserProfile st uid p)")
  case (Inl e)
  then have "snd (updateUserProfile st uid p) = st"
    by (auto simp: updateUserProfile_def Let_def split: if_splits option.splits)
  with assms show ?thesis by simp
next
  case (Inr u)
  then have fresh: "\<forall>e\<in>set (usersStorage st).
        User.userId (snd e) \<noteq> uid \<longrightarrow> User.email (snd e) \<noteq> UserPayload.email p"
    and ex: "\<exists>old. sbtm_get (usersStorage st) uid = Some old \<and> User.userId u = User.userId old"
    and u: "User.email u = UserPayload.email p"
    and st': "usersStorage (snd (updateUserProfile st uid p))
                = sbtm_insert uid u (usersStorage st)"
    by (auto simp: updateUserProfile_def Let_def list_ex_iff sbtm_values_def
        split: if_splits option.splits)
  from assms have ok: "sbtm_ok (usersStorage st)" by (simp add: usersInv_def)
  from ex obtain old where old: "(uid, old) \<in> set (usersStorage st)" "User.userId u = User.userId old"
    using sbtm_get_Some_iff [OF ok] by blast
  with assms have uid: "User.userId u = uid" unfolding usersInv_def by force
  have "inj_on (\<lambda>e. User.email (snd e)) (insert (uid, u) {e \<in> set (usersStorage st). fst e \<noteq> uid})"
    using assms fresh u unfolding usersInv_def inj_on_def by auto
  with assms uid show ?thesis
    unfolding usersInv_def st' set_sbtm_insert [OF ok]
    by (auto simp: sbtm_ok_insert)
qed

lemma usersStorage_others:
  "\<lbrakk>\<And>caller uuid nowIso p. c \<noteq> CreateUserProfile caller uuid nowIso p;
    \<And>uid p. c \<noteq> UpdateUserProfile uid p\<rbrakk> \<Longrightarrow> usersStorage (exec st c) = usersStorage st"
  by (cases c)
     (auto simp: listBook_def updateBook_def createSwapRequest_def updateSwapRequest_def
        acceptSwapRequest_def rejectSwapRequest_def createFeedback_def updateFeedback_def
        deleteFeedback_def deleteBook_def deleteSwapRequest_def Let_def split: option.splits)

lemma usersInv_exec:
  assumes "usersInv st"
  shows "usersInv (exec st c)"
proof -
  consider (create) caller uuid nowIso p where "c = CreateUserProfile caller uuid nowIso p"
    | (update) uid p where "c = UpdateUserProfile uid p"
    | (other) "usersStorage (exec st c) = usersStorage st"
    using usersStorage_others [of c st] by blast
  then show ?thesis
  proof cases
    case create
    with assms show ?thesis by (simp add: usersInv_create)
  next
    case update
    with assms show ?thesis by (simp add: usersInv_update)
  next
    case other
    with assms show ?thesis by (simp add: usersInv_def)
  qed
qed

lemma usersInv_run: "usersInv (run cs)"
proof (induction cs rule: rev_induct)
  case Nil
  show ?case by (simp add: run_def init_def usersInv_def sbtm_ok_def)
next
  case (snoc c cs)
  then show ?case by (simp add: run_snoc usersInv_exec)
qed

text \<open>
  C3. After every sequence of calls, two users stored under different identifiers have
  different e-mail addresses (and each is stored under its own \<open>userId\<close>); the list of
  stored addresses has no duplicate. In every state, \<open>createUserProfile\<close> with an address
  some stored user holds, and \<open>updateUserProfile\<close> with an address a stored user with
  another \<open>userId\<close> holds, return \<open>InvalidPayload\<close> and leave the state unchanged.
\<close>

theorem email_unique:
  "(\<forall>k k' u u'. sbtm_get (usersStorage (run cs)) k = Some u \<and>
        sbtm_get (usersStorage (run cs)) k' = Some u' \<and> k \<noteq> k' \<longrightarrow>
        User.email u \<noteq> User.email u' \<and> User.userId u = k \<and> User.userId u' = k') \<and>
   distinct (map User.email (sbtm_values (usersStorage (run cs)))) \<and>
   (list_ex (\<lambda>user. User.email user = UserPayload.email p) (sbtm_values (usersStorage st)) \<longrightarrow>
      (\<exists>m. createUserProfile st caller uuid nowIso p = (Err (InvalidPayload m), st))) \<and>
   (list_ex (\<lambda>user. User.email user = UserPayload.email p \<and> User.userId user \<noteq> uid)
        (sbtm_values (usersStorage st)) \<longrightarrow>
      (\<exists>m. updateUserProfile st uid p = (Err (InvalidPayload m), st)))"
proof -
  have inv: "usersInv (run cs)" by (rule usersInv_run)
  then have ok: "sbtm_ok (usersStorage (run cs))" by (simp add: usersInv_def)
  have 1: "User.email u \<noteq> User.email u' \<and> User.userId u = k \<and> User.userId u' = k'"
    if "sbtm_get (usersStorage (run cs)) k = Some u"
      "sbtm_get (usersStorage (run cs)) k' = Some u'" "k \<noteq> k'" for k k' u u'
  proof -
    from that have "(k, u) \<in> set (usersStorage (run cs))" "(k', u') \<in> set (usersStorage (run cs))"
      using sbtm_get_Some_iff [OF ok] by auto
    with inv \<open>k \<noteq> k'\<close> show ?thesis unfolding usersInv_def inj_on_def by fastforce
  qed
  have 2: "distinct (map User.email (sbtm_values (usersStorage (run cs))))"
  proof -
    have "distinct (usersStorage (run cs))"
      using sbtm_ok_distinct [OF ok] by (simp add: distinct_map)
    with inv have "distinct (map (\<lambda>e. User.email (snd e)) (usersStorage (run cs)))"
      unfolding usersInv_def by (simp add: distinct_map)
    then show ?thesis by (simp add: sbtm_values_def comp_def)
  qed
  have 3: "\<exists>m. createUserProfile st caller uuid nowIso p = (Err (InvalidPayload m), st)"
    if "list_ex (\<lambda>user. User.email user = UserPayload.email p) (sbtm_values (usersStorage st))"
    using that by (simp add: createUserProfile_def)
  have 4: "\<exists>m. updateUserProfile st uid p = (Err (InvalidPayload m), st)"
    if "list_ex (\<lambda>user. User.email user = UserPayload.email p \<and> User.userId user \<noteq> uid)
        (sbtm_values (usersStorage st))"
    using that by (simp add: updateUserProfile_def)
  from 1 2 3 4 show ?thesis by blast
qed

theorem email_unique_witness:
  "sbtm_get (usersStorage (run setupCalls)) uA = Some annUser \<and>
   sbtm_get (usersStorage (run setupCalls)) uB = Some bobUser \<and> uA \<noteq> uB \<and>
   User.email annUser \<noteq> User.email bobUser \<and>
   list_ex (\<lambda>user. User.email user = UserPayload.email ann)
     (sbtm_values (usersStorage (run setupCalls))) \<and>
   (\<exists>m. createUserProfile (run setupCalls) anon uC t2 ann
      = (Err (InvalidPayload m), run setupCalls)) \<and>
   list_ex (\<lambda>user. User.email user = UserPayload.email ann \<and> User.userId user \<noteq> uB)
     (sbtm_values (usersStorage (run setupCalls))) \<and>
   (\<exists>m. updateUserProfile (run setupCalls) uB ann = (Err (InvalidPayload m), run setupCalls))"
proof -
  have h1: "sbtm_get (usersStorage (run setupCalls)) uA = Some annUser \<and>
      sbtm_get (usersStorage (run setupCalls)) uB = Some bobUser \<and> uA \<noteq> uB"
    by code_simp
  have h2: "list_ex (\<lambda>user. User.email user = UserPayload.email ann)
      (sbtm_values (usersStorage (run setupCalls)))"
    by code_simp
  have h3: "list_ex (\<lambda>user. User.email user = UserPayload.email ann \<and> User.userId user \<noteq> uB)
      (sbtm_values (usersStorage (run setupCalls)))"
    by code_simp
  from h1 h2 h3
    email_unique [of setupCalls ann "run setupCalls" anon uC t2 uB]
  show ?thesis by blast
qed

section \<open>Books\<close>

subsection \<open>Required fields of listBook\<close>

text \<open>
  The claim C9 as stated, that an empty \<open>genre\<close> (or \<open>userId\<close>) makes \<open>listBook\<close> answer
  \<open>InvalidPayload\<close>, fails: with an empty genre and the four tested fields filled in, the
  book is stored.
\<close>

theorem listBook_required_fields_counterexample:
  "BookPayload.genre ulysses = [] \<and>
   fst (listBook (run setupCalls) bk3 t2 ulysses) =
     Ok \<lparr>Book.bookId = bk3, Book.userId = uB, Book.title = ''Ulysses'', Book.author = ''Joyce'',
         Book.genre = [], Book.description = ''Dublin'', Book.imageUrl = ''u.png'',
         Book.createdAt = t2\<rparr> \<and>
   snd (listBook (run setupCalls) bk3 t2 ulysses) \<noteq> run setupCalls"
  by code_simp

text \<open>
  C9 (amended). If \<open>title\<close>, \<open>author\<close>, \<open>description\<close> or \<open>imageUrl\<close> is empty, \<open>listBook\<close>
  returns the \<open>InvalidPayload\<close> error that names these four fields and leaves the state
  unchanged. With the four filled in, a \<open>userId\<close> under which no user is stored (the empty
  one included) gives \<open>NotFound\<close> with the state unchanged, and otherwise the book is
  stored with the genre of the payload, empty or not.
\<close>

theorem listBook_required_fields:
  "(BookPayload.title p = [] \<or> BookPayload.author p = [] \<or> BookPayload.description p = []
      \<or> BookPayload.imageUrl p = [] \<longrightarrow>
    listBook st uuid nowIso p =
      (Err (InvalidPayload
         ''Ensure 'title', 'author', 'description', and 'imageUrl' are provided.''), st)) \<and>
   (BookPayload.title p \<noteq> [] \<and> BookPayload.author p \<noteq> [] \<and> BookPayload.description p \<noteq> []
      \<and> BookPayload.imageUrl p \<noteq> [] \<and> sbtm_get (usersStorage st) (BookPayload.userId p) = None \<longrightarrow>
    listBook st uuid nowIso p = (Err (NotFound ''User not found''), st)) \<and>
   (BookPayload.title p \<noteq> [] \<and> BookPayload.author p \<noteq> [] \<and> BookPayload.description p \<noteq> []
      \<and> BookPayload.imageUrl p \<noteq> [] \<and> sbtm_get (usersStorage st) (BookPayload.userId p) \<noteq> None \<longrightarrow>
    (\<exists>book. fst (listBook st uuid nowIso p) = Ok book \<and> Book.genre book = BookPayload.genre p
       \<and> sbtm_get (booksStorage (snd (listBook st uuid nowIso p))) uuid = Some book))"
  by (auto simp: listBook_def Let_def sbtm_get_insert split: option.splits)

theorem listBook_required_fields_witness:
  "BookPayload.title untitled = [] \<and>
   listBook (run setupCalls) bk3 t2 untitled =
     (Err (InvalidPayload
        ''Ensure 'title', 'author', 'description', and 'imageUrl' are provided.''),
      run setupCalls) \<and>
   sbtm_get (usersStorage (run setupCalls)) (BookPayload.userId orphan) = None \<and>
   listBook (run setupCalls) bk3 t2 orphan = (Err (NotFound ''User not found''), run setupCalls) \<and>
   sbtm_get (usersStorage (run setupCalls)) (BookPayload.userId ulysses) \<noteq> None \<and>
   (\<exists>book. fst (listBook (run setupCalls) bk3 t2 ulysses) = Ok book \<and>
      Book.genre book = BookPayload.genre ulysses \<and>
      sbtm_get (booksStorage (snd (listBook (run setupCalls) bk3 t2 ulysses))) bk3 = Some book)"
proof -
  have h1: "BookPayload.title untitled = []" by code_simp
  have h2: "BookPayload.title orphan \<noteq> [] \<and> BookPayload.author orphan \<noteq> [] \<and>
      BookPayload.description orphan \<noteq> [] \<and> BookPayload.imageUrl orphan \<noteq> [] \<and>
      sbtm_get (usersStorage (run setupCalls)) (BookPayload.userId orphan) = None"
    by code_simp
  have h3: "BookPayload.title ulysses \<noteq> [] \<and> BookPayload.author ulysses \<noteq> [] \<and>
      BookPayload.description ulysses \<noteq> [] \<and> BookPayload.imageUrl ulysses \<noteq> [] \<and>
      sbtm_get (usersStorage (run setupCalls)) (BookPayload.userId ulysses) \<noteq> None"
    by code_simp
  from h1 h2 h3
    listBook_required_fields [of untitled "run setupCalls" bk3 t2]
    listBook_required_fields [of orphan "run setupCalls" bk3 t2]
    listBook_required_fields [of ulysses "run setupCalls" bk3 t2]
  show ?thesis by blast
qed

subsection \<open>Search\<close>

lemma letterCases_facts:
  "distinct (map fst letterCases)" "distinct (map snd letterCases)"
  "set (map fst letterCases) \<inter> set (map snd letterCases) = {}"
  by (simp_all add: letterCases_def upperLetters_def lowerLetters_def)

lemma foldLetter_eq_iff: "foldLetter c = foldLetter d \<longleftrightarrow> sameLetter c d"
proof -
  have some: "map_of letterCases x = Some l \<longleftrightarrow> (x, l) \<in> set letterCases" for x l
    using letterCases_facts(1) by simp
  have none: "map_of letterCases x = None \<longleftrightarrow> (\<forall>l. (x, l) \<notin> set letterCases)" for x
    by (auto simp: map_of_eq_None_iff image_iff)
  have inj: "x = y" if "(x, l) \<in> set letterCases" "(y, l) \<in> set letterCases" for x y l
    using that letterCases_facts(2) by (metis distinct_map inj_onD snd_conv fst_conv)
  have disj: "False" if "(x, l) \<in> set letterCases" "(y, x) \<in> set letterCases" for x y l
  proof -
    from that have "x \<in> set (map fst letterCases)" "x \<in> set (map snd letterCases)"
      by force+
    with letterCases_facts(3) show False by blast
  qed
  show ?thesis
  proof (cases "map_of letterCases c")
    case None
    then have fc: "foldLetter c = c" by (simp add: foldLetter_def)
    from None none have nc: "\<forall>l. (c, l) \<notin> set letterCases" by blast
    show ?thesis
    proof (cases "map_of letterCases d")
      case None
      then have fd: "foldLetter d = d" by (simp add: foldLetter_def)
      from None none have "\<forall>l. (d, l) \<notin> set letterCases" by blast
      with nc show ?thesis unfolding fc fd sameLetter_def by blast
    next
      case (Some l)
      then have fd: "foldLetter d = l" by (simp add: foldLetter_def)
      from Some some have "(d, l) \<in> set letterCases" by blast
      with nc show ?thesis unfolding fc fd sameLetter_def using letterCases_facts(1)
        by (metis some option.inject)
    qed
  next
    case (Some k)
    then have fc: "foldLetter c = k" by (simp add: foldLetter_def)
    from Some some have ck: "(c, k) \<in> set letterCases" by blast
    show ?thesis
    proof (cases "map_of letterCases d")
      case None
      then have fd: "foldLetter d = d" by (simp add: foldLetter_def)
      from None none have "\<forall>l. (d, l) \<notin> set letterCases" by blast
      with ck show ?thesis unfolding fc fd sameLetter_def
        by (metis some option.inject)
    next
      case (Some l)
      then have fd: "foldLetter d = l" by (simp add: foldLetter_def)
      from Some some have dl: "(d, l) \<in> set letterCases" by blast
      show ?thesis unfolding fc fd sameLetter_def
      proof
        assume "k = l"
        with ck dl inj show "c = d \<or> (c, d) \<in> set letterCases \<or> (d, c) \<in> set letterCases"
          by blast
      next
        assume "c = d \<or> (c, d) \<in> set letterCases \<or> (d, c) \<in> set letterCases"
        then show "k = l"
        proof (elim disjE)
          assume "c = d"
          with ck dl some show ?thesis by (metis option.inject)
        next
          assume "(c, d) \<in> set letterCases"
          with dl disj show ?thesis by blast
        next
          assume "(d, c) \<in> set letterCases"
          with ck disj show ?thesis by blast
        qed
      qed
    qed
  qed
qed

lemma map_foldLetter_eq_iff: "map foldLetter xs = map foldLetter ys \<longleftrightarrow> list_all2 sameLetter xs ys"
proof -
  have "map foldLetter xs = map foldLetter ys
      \<longleftrightarrow> list_all2 (\<lambda>x y. foldLetter x = foldLetter y) xs ys"
    by (simp add: list.rel_map flip: list.rel_eq)
  then show ?thesis by (simp add: foldLetter_eq_iff)
qed

lemma includes_text_sublist: "includes_text s t \<longleftrightarrow> sublist t s"
  by (induction s) (auto simp: sublist_Cons_right)

lemma includes_fold_iff:
  "includes_text (map foldLetter s) (map foldLetter t) \<longleftrightarrow> containsIgnoringCase s t"
proof
  assume "includes_text (map foldLetter s) (map foldLetter t)"
  then obtain ps ss where "map foldLetter s = ps @ map foldLetter t @ ss"
    by (auto simp: includes_text_sublist sublist_def)
  then obtain pre rest where s: "s = pre @ rest" and "map foldLetter rest = map foldLetter t @ ss"
    by (metis map_eq_append_conv)
  then obtain mid post where "rest = mid @ post" "map foldLetter mid = map foldLetter t"
    by (metis map_eq_append_conv)
  with s show "containsIgnoringCase s t"
    unfolding containsIgnoringCase_def map_foldLetter_eq_iff by blast
next
  assume "containsIgnoringCase s t"
  then obtain pre mid post where "s = pre @ mid @ post" "map foldLetter mid = map foldLetter t"
    unfolding containsIgnoringCase_def map_foldLetter_eq_iff by blast
  then have "map foldLetter s = map foldLetter pre @ map foldLetter t @ map foldLetter post"
    by simp
  then show "includes_text (map foldLetter s) (map foldLetter t)"
    unfolding includes_text_sublist sublist_def by blast
qed

text \<open>
  The claim C6 as stated, that \<open>searchBooks\<close> returns exactly the books of which the
  title, the author or the genre contains the search term as a substring up to letter
  case, fails outside ASCII, where \<open>toLowerCase\<close> looks at the neighbours of a character.
  The only stored book has the title \<open>odosa\<close>, which begins with the term \<open>odos\<close> letter
  for letter; the sigma of the term ends its word and the sigma of the title does not, the
  two lower-cased texts differ there, and the search returns \<open>NotFound\<close>.
\<close>

theorem searchBooks_spec_counterexample:
  "map Book.title (sbtm_values (booksStorage (run greekCalls))) = [odosa] \<and>
   prefix odos odosa \<and>
   searchBooks lowerGreek (run greekCalls) odos
     = Err (NotFound ''No books found matching the search term.'')"
  by code_simp

text \<open>
  C6 (amended). \<open>searchBooks\<close> returns, in the order of the store, exactly the books of
  which the lower-cased title, author or genre includes the lower-cased search term, and
  \<open>NotFound\<close>, not an empty list, when there is none. Whenever \<open>toLowerCase\<close> only turns the
  capital letters A to Z of the search term and of the titles, authors and genres of
  the stored books into small ones, as it does on ASCII text, these are exactly the books
  of which the title, the author or the genre contains the search term as a substring up
  to the case of its letters.
\<close>

theorem searchBooks_spec:
  "searchBooks toLowerCase st searchTerm =
     (let matches = filter (\<lambda>book.
              includes_text (toLowerCase (Book.title book)) (toLowerCase searchTerm) \<or>
              includes_text (toLowerCase (Book.author book)) (toLowerCase searchTerm) \<or>
              includes_text (toLowerCase (Book.genre book)) (toLowerCase searchTerm))
            (sbtm_values (booksStorage st))
      in if matches = [] then Err (NotFound ''No books found matching the search term.'')
         else Ok matches) \<and>
   (foldsLetters toLowerCase searchTerm \<and>
    list_all (\<lambda>book. foldsLetters toLowerCase (Book.title book) \<and>
                     foldsLetters toLowerCase (Book.author book) \<and>
                     foldsLetters toLowerCase (Book.genre book))
      (sbtm_values (booksStorage st)) \<longrightarrow>
    searchBooks toLowerCase st searchTerm =
      (let matches = filter (\<lambda>book. containsIgnoringCase (Book.title book) searchTerm \<or>
                              containsIgnoringCase (Book.author book) searchTerm \<or>
                              containsIgnoringCase (Book.genre book) searchTerm)
                       (sbtm_values (booksStorage st))
       in if matches = [] then Err (NotFound ''No books found matching the search term.'')
          else Ok matches))"
proof (intro conjI impI)
  show "searchBooks toLowerCase st searchTerm =
     (let matches = filter (\<lambda>book.
              includes_text (toLowerCase (Book.title book)) (toLowerCase searchTerm) \<or>
              includes_text (toLowerCase (Book.author book)) (toLowerCase searchTerm) \<or>
              includes_text (toLowerCase (Book.genre book)) (toLowerCase searchTerm))
            (sbtm_values (booksStorage st))
      in if matches = [] then Err (NotFound ''No books found matching the search term.'')
         else Ok matches)"
    by (simp add: searchBooks_def Let_def)
next
  assume h: "foldsLetters toLowerCase searchTerm \<and>
    list_all (\<lambda>book. foldsLetters toLowerCase (Book.title book) \<and>
                     foldsLetters toLowerCase (Book.author book) \<and>
                     foldsLetters toLowerCase (Book.genre book))
      (sbtm_values (booksStorage st))"
  have "filter (\<lambda>book.
              includes_text (toLowerCase (Book.title book)) (toLowerCase searchTerm) \<or>
              includes_text (toLowerCase (Book.author book)) (toLowerCase searchTerm) \<or>
              includes_text (toLowerCase (Book.genre book)) (toLowerCase searchTerm))
            (sbtm_values (booksStorage st))
      = filter (\<lambda>book. containsIgnoringCase (Book.title book) searchTerm \<or>
                              containsIgnoringCase (Book.author book) searchTerm \<or>
                              containsIgnoringCase (Book.genre book) searchTerm)
            (sbtm_values (booksStorage st))"
    using h by (intro filter_cong refl) (simp add: list_all_iff foldsLetters_def includes_fold_iff)
  then show "searchBooks toLowerCase st searchTerm =
      (let matches = filter (\<lambda>book. containsIgnoringCase (Book.title book) searchTerm \<or>
                              containsIgnoringCase (Book.author book) searchTerm \<or>
                              containsIgnoringCase (Book.genre book) searchTerm)
                       (sbtm_values (booksStorage st))
       in if matches = [] then Err (NotFound ''No books found matching the search term.'')
          else Ok matches)"
    by (simp add: searchBooks_def Let_def)
qed

theorem searchBooks_spec_witness:
  "foldsLetters (map foldLetter) ''sCIfi'' \<and>
   list_all (\<lambda>book. foldsLetters (map foldLetter) (Book.title book) \<and>
                    foldsLetters (map foldLetter) (Book.author book) \<and>
                    foldsLetters (map foldLetter) (Book.genre book))
     (sbtm_values (booksStorage (run setupCalls))) \<and>
   sbtm_values (booksStorage (run setupCalls)) = [duneBook, emmaBook] \<and>
   searchBooks (map foldLetter) (run setupCalls) ''sCIfi'' = Ok [duneBook] \<and>
   filter (\<lambda>book. containsIgnoringCase (Book.title book) ''sCIfi'' \<or>
                  containsIgnoringCase (Book.author book) ''sCIfi'' \<or>
                  containsIgnoringCase (Book.genre book) ''sCIfi'')
     (sbtm_values (booksStorage (run setupCalls))) = [duneBook] \<and>
   foldsLetters (map foldLetter) ''fantasy'' \<and>
   searchBooks (map foldLetter) (run setupCalls) ''fantasy''
     = Err (NotFound ''No books found matching the search term.'') \<and>
   filter (\<lambda>book. containsIgnoringCase (Book.title book) ''fantasy'' \<or>
                  containsIgnoringCase (Book.author book) ''fantasy'' \<or>
                  containsIgnoringCase (Book.genre book) ''fantasy'')
     (sbtm_values (booksStorage (run setupCalls))) = []"
proof -
  have f1: "foldsLetters (map foldLetter) ''sCIfi''" and f2: "foldsLetters (map foldLetter) ''fantasy''"
    by (simp_all add: foldsLetters_def)
  have fb: "list_all (\<lambda>book. foldsLetters (map foldLetter) (Book.title book) \<and>
                    foldsLetters (map foldLetter) (Book.author book) \<and>
                    foldsLetters (map foldLetter) (Book.genre book))
     (sbtm_values (booksStorage (run setupCalls)))"
    by (simp add: foldsLetters_def list_all_iff)
  have v: "sbtm_values (booksStorage (run setupCalls)) = [duneBook, emmaBook]" by code_simp
  have e1: "searchBooks (map foldLetter) (run setupCalls) ''sCIfi'' = Ok [duneBook]" by code_simp
  have e2: "searchBooks (map foldLetter) (run setupCalls) ''fantasy''
     = Err (NotFound ''No books found matching the search term.'')"
    by code_simp
  note t1 = searchBooks_spec [where toLowerCase = "map foldLetter" and st = "run setupCalls"
      and searchTerm = "''sCIfi''", THEN conjunct2, THEN mp, OF conjI, OF f1 fb]
  note t2 = searchBooks_spec [where toLowerCase = "map foldLetter" and st = "run setupCalls"
      and searchTerm = "''fantasy''", THEN conjunct2, THEN mp, OF conjI, OF f2 fb]
  have m1: "filter (\<lambda>book. containsIgnoringCase (Book.title book) ''sCIfi'' \<or>
                  containsIgnoringCase (Book.author book) ''sCIfi'' \<or>
                  containsIgnoringCase (Book.genre book) ''sCIfi'')
     (sbtm_values (booksStorage (run setupCalls))) = [duneBook]"
    using t1 unfolding e1 by (simp add: Let_def split: if_splits)
  have m2: "filter (\<lambda>book. containsIgnoringCase (Book.title book) ''fantasy'' \<or>
                  containsIgnoringCase (Book.author book) ''fantasy'' \<or>
                  containsIgnoringCase (Book.genre book) ''fantasy'')
     (sbtm_values (booksStorage (run setupCalls))) = []"
    using t2 unfolding e2 by (simp add: Let_def split: if_splits)
  from f1 fb v e1 m1 f2 e2 m2 show ?thesis by (intro conjI)
qed

subsection \<open>Recent books\<close>

lemma sorted_take_drop_le:
  "sorted (map f xs) \<Longrightarrow> a \<in> set (take n xs) \<Longrightarrow> b \<in> set (drop n xs) \<Longrightarrow> f a \<le> f b"
proof -
  assume s: "sorted (map f xs)" and a: "a \<in> set (take n xs)" and b: "b \<in> set (drop n xs)"
  from s have "sorted (map f (take n xs) @ map f (drop n xs))"
    by (simp flip: map_append)
  with a b show ?thesis by (auto simp: sorted_append)
qed




section \<open>Creating and reading back\<close>

text \<open>
  C8. For a payload that passes the checks of its creation call, the call returns the
  record made of the fields of the payload, the identifier supplied by \<open>uuidv4()\<close> and the
  time stamp (and, for a request, the status \<open>Pending\<close>; for a user, the caller as owner),
  and reading under that identifier in the resulting state returns the same record. This
  holds for \<open>listBook\<close> and \<open>getBook\<close>, \<open>createUserProfile\<close> and \<open>getUserProfile\<close>,
  \<open>createSwapRequest\<close> and \<open>getSwapRequest\<close>, \<open>createFeedback\<close> and \<open>getFeedback\<close>.
\<close>

theorem create_read_roundtrip:
  "(BookPayload.title bp \<noteq> [] \<and> BookPayload.author bp \<noteq> [] \<and> BookPayload.description bp \<noteq> [] \<and>
    BookPayload.imageUrl bp \<noteq> [] \<and> sbtm_get (usersStorage st) (BookPayload.userId bp) \<noteq> None \<longrightarrow>
      (\<exists>book. fst (listBook st uuid nowIso bp) = Ok book \<and>
         getBook (snd (listBook st uuid nowIso bp)) (Book.bookId book) = Ok book \<and>
         book = \<lparr>Book.bookId = uuid, Book.userId = BookPayload.userId bp,
              Book.title = BookPayload.title bp, Book.author = BookPayload.author bp,
              Book.genre = BookPayload.genre bp, Book.description = BookPayload.description bp,
              Book.imageUrl = BookPayload.imageUrl bp, Book.createdAt = nowIso\<rparr>)) \<and>
   (UserPayload.name up \<noteq> [] \<and> UserPayload.email up \<noteq> [] \<and> UserPayload.phoneNumber up \<noteq> [] \<and>
    isValidEmail (UserPayload.email up) \<and> isValidPhoneNumber (UserPayload.phoneNumber up) \<and>
    \<not> list_ex (\<lambda>user. User.email user = UserPayload.email up) (sbtm_values (usersStorage st)) \<longrightarrow>
      (\<exists>user. fst (createUserProfile st caller uuid nowIso up) = Ok user \<and>
         getUserProfile (snd (createUserProfile st caller uuid nowIso up)) (User.userId user) = Ok user \<and>
         user = \<lparr>User.userId = uuid, User.owner = caller, User.name = UserPayload.name up,
              User.email = UserPayload.email up, User.phoneNumber = UserPayload.phoneNumber up,
              User.createdAt = nowIso\<rparr>)) \<and>
   (SwapRequestPayload.ownerId sp \<noteq> [] \<and> SwapRequestPayload.requesterId sp \<noteq> [] \<and>
    SwapRequestPayload.bookId sp \<noteq> [] \<and>
    sbtm_get (usersStorage st) (SwapRequestPayload.ownerId sp) \<noteq> None \<and>
    sbtm_get (usersStorage st) (SwapRequestPayload.requesterId sp) \<noteq> None \<and>
    sbtm_get (booksStorage st) (SwapRequestPayload.bookId sp) \<noteq> None \<and>
    \<not> list_ex (sameTriple sp) (sbtm_values (swapRequestsStorage st)) \<longrightarrow>
      (\<exists>req. fst (createSwapRequest st uuid nowIso sp) = Ok req \<and>
         getSwapRequest (snd (createSwapRequest st uuid nowIso sp)) (SwapRequest.swapRequestId req)
           = Ok req \<and>
         req = \<lparr>SwapRequest.swapRequestId = uuid,
             SwapRequest.ownerId = SwapRequestPayload.ownerId sp,
             SwapRequest.requesterId = SwapRequestPayload.requesterId sp,
             SwapRequest.bookId = SwapRequestPayload.bookId sp,
             SwapRequest.status = ''Pending'', SwapRequest.createdAt = nowIso\<rparr>)) \<and>
   (FeedbackPayload.rating fp \<noteq> 0 \<and> FeedbackPayload.comment fp \<noteq> [] \<and>
    sbtm_get (usersStorage st) (FeedbackPayload.userId fp) \<noteq> None \<and>
    sbtm_get (swapRequestsStorage st) (FeedbackPayload.swapRequestId fp) \<noteq> None \<longrightarrow>
      (\<exists>fb. fst (createFeedback st uuid nowIso fp) = Ok fb \<and>
         getFeedback (snd (createFeedback st uuid nowIso fp)) (Feedback.feedbackId fb) = Ok fb \<and>
         fb = \<lparr>Feedback.feedbackId = uuid, Feedback.userId = FeedbackPayload.userId fp,
            Feedback.swapRequestId = FeedbackPayload.swapRequestId fp,
            Feedback.rating = FeedbackPayload.rating fp,
            Feedback.comment = FeedbackPayload.comment fp, Feedback.createdAt = nowIso\<rparr>))"
proof (intro conjI impI)
  show "\<exists>book. fst (listBook st uuid nowIso bp) = Ok book \<and>
         getBook (snd (listBook st uuid nowIso bp)) (Book.bookId book) = Ok book \<and>
         book = \<lparr>Book.bookId = uuid, Book.userId = BookPayload.userId bp,
              Book.title = BookPayload.title bp, Book.author = BookPayload.author bp,
              Book.genre = BookPayload.genre bp, Book.description = BookPayload.description bp,
              Book.imageUrl = BookPayload.imageUrl bp, Book.createdAt = nowIso\<rparr>"
    if "BookPayload.title bp \<noteq> [] \<and> BookPayload.author bp \<noteq> [] \<and> BookPayload.description bp \<noteq> [] \<and>
    BookPayload.imageUrl bp \<noteq> [] \<and> sbtm_get (usersStorage st) (BookPayload.userId bp) \<noteq> None"
    using that
    by (auto simp: listBook_def getBook_def Let_def sbtm_get_insert)
  show "\<exists>user. fst (createUserProfile st caller uuid nowIso up) = Ok user \<and>
         getUserProfile (snd (createUserProfile st caller uuid nowIso up)) (User.userId user) = Ok user \<and>
         user = \<lparr>User.userId = uuid, User.owner = caller, User.name = UserPayload.name up,
              User.email = UserPayload.email up, User.phoneNumber = UserPayload.phoneNumber up,
              User.createdAt = nowIso\<rparr>"
    if "UserPayload.name up \<noteq> [] \<and> UserPayload.email up \<noteq> [] \<and> UserPayload.phoneNumber up \<noteq> [] \<and>
    isValidEmail (UserPayload.email up) \<and> isValidPhoneNumber (UserPayload.phoneNumber up) \<and>
    \<not> list_ex (\<lambda>user. User.email user = UserPayload.email up) (sbtm_values (usersStorage st))"
    using that
    by (simp add: createUserProfile_def getUserProfile_def Let_def sbtm_get_insert)
  show "\<exists>req. fst (createSwapRequest st uuid nowIso sp) = Ok req \<and>
         getSwapRequest (snd (createSwapRequest st uuid nowIso sp)) (SwapRequest.swapRequestId req)
           = Ok req \<and>
         req = \<lparr>SwapRequest.swapRequestId = uuid,
             SwapRequest.ownerId = SwapRequestPayload.ownerId sp,
             SwapRequest.requesterId = SwapRequestPayload.requesterId sp,
             SwapRequest.bookId = SwapRequestPayload.bookId sp,
             SwapRequest.status = ''Pending'', SwapRequest.createdAt = nowIso\<rparr>"
    if "SwapRequestPayload.ownerId sp \<noteq> [] \<and> SwapRequestPayload.requesterId sp \<noteq> [] \<and>
    SwapRequestPayload.bookId sp \<noteq> [] \<and>
    sbtm_get (usersStorage st) (SwapRequestPayload.ownerId sp) \<noteq> None \<and>
    sbtm_get (usersStorage st) (SwapRequestPayload.requesterId sp) \<noteq> None \<and>
    sbtm_get (booksStorage st) (SwapRequestPayload.bookId sp) \<noteq> None \<and>
    \<not> list_ex (sameTriple sp) (sbtm_values (swapRequestsStorage st))"
  proof -
    from that have "\<not> list_ex (sameTriple sp)
        (filter (\<lambda>swapRequest. SwapRequest.status swapRequest = ''Completed'')
           (sbtm_values (swapRequestsStorage st)))"
      using list_ex_filter_imp by blast
    with that show ?thesis
      by (simp add: createSwapRequest_def getSwapRequest_def Let_def sbtm_get_insert)
  qed
  show "\<exists>fb. fst (createFeedback st uuid nowIso fp) = Ok fb \<and>
         getFeedback (snd (createFeedback st uuid nowIso fp)) (Feedback.feedbackId fb) = Ok fb \<and>
         fb = \<lparr>Feedback.feedbackId = uuid, Feedback.userId = FeedbackPayload.userId fp,
            Feedback.swapRequestId = FeedbackPayload.swapRequestId fp,
            Feedback.rating = FeedbackPayload.rating fp,
            Feedback.comment = FeedbackPayload.comment fp, Feedback.createdAt = nowIso\<rparr>"
    if "FeedbackPayload.rating fp \<noteq> 0 \<and> FeedbackPayload.comment fp \<noteq> [] \<and>
    sbtm_get (usersStorage st) (FeedbackPayload.userId fp) \<noteq> None \<and>
    sbtm_get (swapRequestsStorage st) (FeedbackPayload.swapRequestId fp) \<noteq> None"
    using that
    by (simp add: createFeedback_def getFeedback_def Let_def sbtm_get_insert)
qed

theorem create_read_roundtrip_witness:
  "(BookPayload.title ulysses \<noteq> [] \<and> BookPayload.author ulysses \<noteq> [] \<and>
    BookPayload.description ulysses \<noteq> [] \<and> BookPayload.imageUrl ulysses \<noteq> [] \<and>
    sbtm_get (usersStorage (run requestCalls)) (BookPayload.userId ulysses) \<noteq> None) \<and>
   (\<exists>book. fst (listBook (run requestCalls) uC t2 ulysses) = Ok book \<and>
      getBook (snd (listBook (run requestCalls) uC t2 ulysses)) (Book.bookId book) = Ok book \<and>
      book = \<lparr>Book.bookId = uC, Book.userId = BookPayload.userId ulysses,
              Book.title = BookPayload.title ulysses, Book.author = BookPayload.author ulysses,
              Book.genre = BookPayload.genre ulysses,
              Book.description = BookPayload.description ulysses,
              Book.imageUrl = BookPayload.imageUrl ulysses, Book.createdAt = t2\<rparr>) \<and>
   (UserPayload.name cat \<noteq> [] \<and> UserPayload.email cat \<noteq> [] \<and> UserPayload.phoneNumber cat \<noteq> [] \<and>
    isValidEmail (UserPayload.email cat) \<and> isValidPhoneNumber (UserPayload.phoneNumber cat) \<and>
    \<not> list_ex (\<lambda>user. User.email user = UserPayload.email cat)
         (sbtm_values (usersStorage (run requestCalls)))) \<and>
   (\<exists>user. fst (createUserProfile (run requestCalls) anon uC t2 cat) = Ok user \<and>
      getUserProfile (snd (createUserProfile (run requestCalls) anon uC t2 cat)) (User.userId user)
        = Ok user \<and>
      user = \<lparr>User.userId = uC, User.owner = anon, User.name = UserPayload.name cat,
              User.email = UserPayload.email cat, User.phoneNumber = UserPayload.phoneNumber cat,
              User.createdAt = t2\<rparr>) \<and>
   (SwapRequestPayload.ownerId reqEmma \<noteq> [] \<and> SwapRequestPayload.requesterId reqEmma \<noteq> [] \<and>
    SwapRequestPayload.bookId reqEmma \<noteq> [] \<and>
    sbtm_get (usersStorage (run requestCalls)) (SwapRequestPayload.ownerId reqEmma) \<noteq> None \<and>
    sbtm_get (usersStorage (run requestCalls)) (SwapRequestPayload.requesterId reqEmma) \<noteq> None \<and>
    sbtm_get (booksStorage (run requestCalls)) (SwapRequestPayload.bookId reqEmma) \<noteq> None \<and>
    \<not> list_ex (sameTriple reqEmma) (sbtm_values (swapRequestsStorage (run requestCalls)))) \<and>
   (\<exists>req. fst (createSwapRequest (run requestCalls) uC t2 reqEmma) = Ok req \<and>
      getSwapRequest (snd (createSwapRequest (run requestCalls) uC t2 reqEmma))
          (SwapRequest.swapRequestId req) = Ok req \<and>
      req = \<lparr>SwapRequest.swapRequestId = uC,
             SwapRequest.ownerId = SwapRequestPayload.ownerId reqEmma,
             SwapRequest.requesterId = SwapRequestPayload.requesterId reqEmma,
             SwapRequest.bookId = SwapRequestPayload.bookId reqEmma,
             SwapRequest.status = ''Pending'', SwapRequest.createdAt = t2\<rparr>) \<and>
   (FeedbackPayload.rating praise \<noteq> 0 \<and> FeedbackPayload.comment praise \<noteq> [] \<and>
    sbtm_get (usersStorage (run requestCalls)) (FeedbackPayload.userId praise) \<noteq> None \<and>
    sbtm_get (swapRequestsStorage (run requestCalls)) (FeedbackPayload.swapRequestId praise) \<noteq> None) \<and>
   (\<exists>fb. fst (createFeedback (run requestCalls) uC t2 praise) = Ok fb \<and>
      getFeedback (snd (createFeedback (run requestCalls) uC t2 praise)) (Feedback.feedbackId fb)
        = Ok fb \<and>
      fb = \<lparr>Feedback.feedbackId = uC, Feedback.userId = FeedbackPayload.userId praise,
            Feedback.swapRequestId = FeedbackPayload.swapRequestId praise,
            Feedback.rating = FeedbackPayload.rating praise,
            Feedback.comment = FeedbackPayload.comment praise, Feedback.createdAt = t2\<rparr>)"
proof -
  have hb: "BookPayload.title ulysses \<noteq> [] \<and> BookPayload.author ulysses \<noteq> [] \<and>
    BookPayload.description ulysses \<noteq> [] \<and> BookPayload.imageUrl ulysses \<noteq> [] \<and>
    sbtm_get (usersStorage (run requestCalls)) (BookPayload.userId ulysses) \<noteq> None"
    by code_simp
  have hu: "UserPayload.name cat \<noteq> [] \<and> UserPayload.email cat \<noteq> [] \<and> UserPayload.phoneNumber cat \<noteq> [] \<and>
    isValidEmail (UserPayload.email cat) \<and> isValidPhoneNumber (UserPayload.phoneNumber cat) \<and>
    \<not> list_ex (\<lambda>user. User.email user = UserPayload.email cat)
         (sbtm_values (usersStorage (run requestCalls)))"
    by code_simp
  have hs: "SwapRequestPayload.ownerId reqEmma \<noteq> [] \<and> SwapRequestPayload.requesterId reqEmma \<noteq> [] \<and>
    SwapRequestPayload.bookId reqEmma \<noteq> [] \<and>
    sbtm_get (usersStorage (run requestCalls)) (SwapRequestPayload.ownerId reqEmma) \<noteq> None \<and>
    sbtm_get (usersStorage (run requestCalls)) (SwapRequestPayload.requesterId reqEmma) \<noteq> None \<and>
    sbtm_get (booksStorage (run requestCalls)) (SwapRequestPayload.bookId reqEmma) \<noteq> None \<and>
    \<not> list_ex (sameTriple reqEmma) (sbtm_values (swapRequestsStorage (run requestCalls)))"
    by code_simp
  have hf: "FeedbackPayload.rating praise \<noteq> 0 \<and> FeedbackPayload.comment praise \<noteq> [] \<and>
    sbtm_get (usersStorage (run requestCalls)) (FeedbackPayload.userId praise) \<noteq> None \<and>
    sbtm_get (swapRequestsStorage (run requestCalls)) (FeedbackPayload.swapRequestId praise) \<noteq> None"
    by code_simp
  note rt = create_read_roundtrip [of ulysses "run requestCalls" uC t2 cat anon reqEmma praise]
  from rt [THEN conjunct1, rule_format, OF hb]
    rt [THEN conjunct2, THEN conjunct1, rule_format, OF hu]
    rt [THEN conjunct2, THEN conjunct2, THEN conjunct1, rule_format, OF hs]
    rt [THEN conjunct2, THEN conjunct2, THEN conjunct2, rule_format, OF hf]
    hb hu hs hf
  show ?thesis by blast
qed

section \<open>Featured swappers\<close>

lemma map_of_countSwap:
  "map_of (countSwap m r) u = (if takesPart u r then Some (countOf m u + 1) else map_of m u)"
  by (auto simp: countSwap_def Let_def update_conv takesPart_def)

lemma countOf_countSwap:
  "countOf (countSwap m r) u = countOf m u + (if takesPart u r then 1 else 0)"
  by (simp add: countOf_def map_of_countSwap)

lemma countOf_foldl:
  "countOf (foldl countSwap m rs) u = countOf m u + length (filter (takesPart u) rs)"
  by (induction rs arbitrary: m) (simp_all add: countOf_countSwap)

lemma distinct_countSwap: "distinct (map fst m) \<Longrightarrow> distinct (map fst (countSwap m r))"
  by (simp add: countSwap_def Let_def distinct_update)

lemma distinct_foldl_countSwap:
  "distinct (map fst m) \<Longrightarrow> distinct (map fst (foldl countSwap m rs))"
  by (induction rs arbitrary: m) (simp_all add: distinct_countSwap)

lemma positive_foldl_countSwap:
  "(\<And>u n. map_of m u = Some n \<Longrightarrow> 0 < n) \<Longrightarrow> map_of (foldl countSwap m rs) u = Some n \<Longrightarrow> 0 < n"
proof (induction rs arbitrary: m)
  case Nil
  then show ?case by simp
next
  case (Cons r rs)
  have "0 < k" if "map_of (countSwap m r) v = Some k" for v k
    using that Cons.prems(1) [of v k] by (auto simp: map_of_countSwap split: if_splits)
  from Cons.IH [OF this] Cons.prems(2) show ?case by simp
qed

lemma swapCountPerUser_entry:
  "(u, n) \<in> set (swapCountPerUser rs) \<longleftrightarrow> n = length (filter (takesPart u) rs) \<and> 0 < n"
proof -
  have d: "distinct (map fst (swapCountPerUser rs))"
    unfolding swapCountPerUser_def by (rule distinct_foldl_countSwap) simp
  have c: "countOf (swapCountPerUser rs) u = length (filter (takesPart u) rs)"
    unfolding swapCountPerUser_def countOf_foldl by (simp add: countOf_def)
  have p: "0 < k" if "map_of (swapCountPerUser rs) u = Some k" for k
    using positive_foldl_countSwap [of "[]" rs u k] that
    unfolding swapCountPerUser_def by simp
  show ?thesis
  proof
    assume "(u, n) \<in> set (swapCountPerUser rs)"
    with d have m: "map_of (swapCountPerUser rs) u = Some n" by simp
    with c p [OF m] show "n = length (filter (takesPart u) rs) \<and> 0 < n"
      by (simp add: countOf_def)
  next
    assume a: "n = length (filter (takesPart u) rs) \<and> 0 < n"
    with c have "countOf (swapCountPerUser rs) u = n" "0 < n" by auto
    then have "map_of (swapCountPerUser rs) u = Some n"
      by (auto simp: countOf_def split: option.splits)
    then show "(u, n) \<in> set (swapCountPerUser rs)" by (rule map_of_SomeD)
  qed
qed

lemma completedThisMonth_window:
  "completedThisMonth newDate now r \<longleftrightarrow> inMonthWindow newDate now r"
  by (simp add: completedThisMonth_def inMonthWindow_def Let_def)

lemma completedSwapsOf_filter:
  "completedSwapsOf newDate now st u =
     length (filter (takesPart u)
       (filter (completedThisMonth newDate now) (sbtm_values (swapRequestsStorage st))))"
  by (simp add: completedSwapsOf_def completedThisMonth_window conj_commute)

lemma featuredEntry_Some:
  "sbtm_get (usersStorage st) u = Some user \<Longrightarrow>
   featuredEntry newDate st (u, completedSwapsOf newDate now st u) = Some (featuredOf newDate now st u user)"
  by (simp add: featuredEntry_def featuredOf_def)

lemma featuredEntry_None_iff:
  "featuredEntry newDate st e = None \<longleftrightarrow> sbtm_get (usersStorage st) (fst e) = None"
  by (simp add: featuredEntry_def split: option.splits)

lemma featuredEntry_booksSwapped:
  "featuredEntry newDate st e = Some f \<Longrightarrow> FeaturedSwapper.booksSwapped f = snd e"
  by (auto simp: featuredEntry_def split: option.splits)

text \<open>
  C5. When no stored request has the status \<open>Completed\<close> and a \<open>createdAt\<close> in the current
  calendar month and year, \<open>getFeaturedSwappers\<close> returns \<open>NotFound\<close>; when some stored user
  takes part in such a request it returns a list. A returned list is not empty, has at most five entries and is
  in descending order of \<open>booksSwapped\<close>. Every entry belongs to a stored user, and its
  \<open>booksSwapped\<close> is the number of such requests of which that user is the
  owner or the requester (a request counts once for each of the two, and once for a user
  who is both). A stored user with such requests who is left out is preceded by five
  entries with at least as many.
\<close>

theorem getFeaturedSwappers_spec:
  "(filter (inMonthWindow newDate now) (sbtm_values (swapRequestsStorage st)) = [] \<longrightarrow>
      getFeaturedSwappers newDate now st
        = Err (NotFound ''No featured swappers found for this month.'')) \<and>
   ((\<exists>u. sbtm_get (usersStorage st) u \<noteq> None \<and> 0 < completedSwapsOf newDate now st u) \<longrightarrow>
      (\<exists>fs. getFeaturedSwappers newDate now st = Ok fs)) \<and>
   (\<forall>fs. getFeaturedSwappers newDate now st = Ok fs \<longrightarrow>
      fs \<noteq> [] \<and> length fs \<le> 5 \<and>
      sorted_wrt (\<lambda>a b. FeaturedSwapper.booksSwapped a \<ge> FeaturedSwapper.booksSwapped b) fs \<and>
      (\<forall>f \<in> set fs. \<exists>u user. sbtm_get (usersStorage st) u = Some user \<and>
          0 < completedSwapsOf newDate now st u \<and> f = featuredOf newDate now st u user) \<and>
      (\<forall>u user. sbtm_get (usersStorage st) u = Some user \<and> 0 < completedSwapsOf newDate now st u \<longrightarrow>
          featuredOf newDate now st u user \<in> set fs \<or>
          (length fs = 5 \<and>
           (\<forall>f \<in> set fs. completedSwapsOf newDate now st u \<le> FeaturedSwapper.booksSwapped f))))"
proof -
  define W where "W = filter (completedThisMonth newDate now) (sbtm_values (swapRequestsStorage st))"
  define M where "M = swapCountPerUser W"
  define S where "S = sort_key (\<lambda>entry. - int (snd entry)) M"
  define g where "g = (\<lambda>e. the (featuredEntry newDate st e))"
  define F where "F = filter (\<lambda>e. featuredEntry newDate st e \<noteq> None) S"
  define R where "R = take 5 (map g F)"
  let ?cnt = "completedSwapsOf newDate now st"
  have cnt: "?cnt u = length (filter (takesPart u) W)" for u
    by (simp add: completedSwapsOf_filter W_def)
  have M_iff: "(u, n) \<in> set M \<longleftrightarrow> n = ?cnt u \<and> 0 < n" for u n
    by (simp add: M_def swapCountPerUser_entry cnt)
  have setS: "set S = set M" by (simp add: S_def)
  have F_iff: "(u, n) \<in> set F \<longleftrightarrow> n = ?cnt u \<and> 0 < n \<and> sbtm_get (usersStorage st) u \<noteq> None" for u n
    by (auto simp: F_def setS M_iff featuredEntry_None_iff)
  have gF: "g (u, ?cnt u) = featuredOf newDate now st u user"
    if "sbtm_get (usersStorage st) u = Some user" for u user
    by (simp add: g_def featuredEntry_Some [OF that])
  have gsnd: "FeaturedSwapper.booksSwapped (g e) = snd e" if "e \<in> set F" for e
  proof -
    from that obtain f where "featuredEntry newDate st e = Some f" by (auto simp: F_def)
    then show ?thesis by (simp add: g_def featuredEntry_booksSwapped)
  qed
  have res: "getFeaturedSwappers newDate now st =
      (if R = [] then Err (NotFound ''No featured swappers found for this month.'') else Ok R)"
    by (simp add: getFeaturedSwappers_def Let_def R_def F_def S_def M_def W_def g_def
        filter_map comp_def)
  have R_map: "R = map g (take 5 F)" by (simp add: R_def take_map)
  have srtS: "sorted (map (\<lambda>entry. - int (snd entry)) S)" by (simp add: S_def)
  then have srtF: "sorted (map (\<lambda>entry. - int (snd entry)) F)"
    unfolding F_def by (rule sorted_filter)
  have descF: "sorted_wrt (\<lambda>a b. snd a \<ge> snd b) F"
    using srtF by (simp add: sorted_map)
  have descR: "sorted_wrt (\<lambda>a b. FeaturedSwapper.booksSwapped a \<ge> FeaturedSwapper.booksSwapped b) R"
  proof -
    from descF have "sorted_wrt (\<lambda>a b. snd a \<ge> snd b) (take 5 F)" by (rule sorted_wrt_take)
    then have "sorted_wrt (\<lambda>a b. FeaturedSwapper.booksSwapped (g a) \<ge> FeaturedSwapper.booksSwapped (g b)) (take 5 F)"
      by (rule sorted_wrt_mono_rel [rotated]) (auto dest!: in_set_takeD simp: gsnd)
    then show ?thesis by (simp add: R_map sorted_wrt_map)
  qed
  have entries: "\<exists>u user. sbtm_get (usersStorage st) u = Some user \<and> 0 < ?cnt u \<and>
      f = featuredOf newDate now st u user" if "f \<in> set R" for f
  proof -
    from that obtain e where e: "e \<in> set F" "f = g e" by (auto simp: R_map dest: in_set_takeD)
    obtain u n where un: "e = (u, n)" by (cases e)
    with e F_iff [of u n] obtain user where "n = ?cnt u" "0 < n" "sbtm_get (usersStorage st) u = Some user"
      by auto
    with e un gF [of u user] show ?thesis by auto
  qed
  have top: "featuredOf newDate now st u user \<in> set R \<or>
      (length R = 5 \<and> (\<forall>f \<in> set R. ?cnt u \<le> FeaturedSwapper.booksSwapped f))"
    if "sbtm_get (usersStorage st) u = Some user" "0 < ?cnt u" for u user
  proof -
    from that have inF: "(u, ?cnt u) \<in> set F" by (simp add: F_iff)
    then have "(u, ?cnt u) \<in> set (take 5 F) \<or> (u, ?cnt u) \<in> set (drop 5 F)"
      by (metis Un_iff append_take_drop_id set_append)
    then show ?thesis
    proof
      assume "(u, ?cnt u) \<in> set (take 5 F)"
      then have "g (u, ?cnt u) \<in> set R" by (simp add: R_map)
      with gF [OF that(1)] show ?thesis by simp
    next
      assume d: "(u, ?cnt u) \<in> set (drop 5 F)"
      then have "5 < length F" by (cases "5 < length F") auto
      then have len: "length R = 5" by (simp add: R_map)
      have "?cnt u \<le> FeaturedSwapper.booksSwapped f" if "f \<in> set R" for f
      proof -
        from that obtain e where e: "e \<in> set (take 5 F)" "f = g e" by (auto simp: R_map)
        from sorted_take_drop_le [OF srtF e(1) d] have "?cnt u \<le> snd e" by simp
        with e gsnd [of e] show ?thesis by (auto dest: in_set_takeD)
      qed
      with len show ?thesis by blast
    qed
  qed
  have none: "R = []" if "filter (inMonthWindow newDate now) (sbtm_values (swapRequestsStorage st)) = []"
  proof -
    from that have "W = []" by (simp add: W_def completedThisMonth_window [abs_def])
    then show ?thesis by (simp add: R_def F_def S_def M_def swapCountPerUser_def)
  qed
  have some: "R \<noteq> []" if "sbtm_get (usersStorage st) u \<noteq> None" "0 < ?cnt u" for u
  proof -
    from that have "(u, ?cnt u) \<in> set F" by (simp add: F_iff)
    then have "F \<noteq> []" by auto
    then show ?thesis by (simp add: R_def)
  qed
  have len: "length R \<le> 5" by (simp add: R_def)
  have A: "filter (inMonthWindow newDate now) (sbtm_values (swapRequestsStorage st)) = [] \<longrightarrow>
      getFeaturedSwappers newDate now st
        = Err (NotFound ''No featured swappers found for this month.'')"
    using none res by simp
  have B: "(\<exists>u. sbtm_get (usersStorage st) u \<noteq> None \<and> 0 < ?cnt u) \<longrightarrow>
      (\<exists>fs. getFeaturedSwappers newDate now st = Ok fs)"
    using some res by metis
  have C: "fs \<noteq> [] \<and> length fs \<le> 5 \<and>
      sorted_wrt (\<lambda>a b. FeaturedSwapper.booksSwapped a \<ge> FeaturedSwapper.booksSwapped b) fs \<and>
      (\<forall>f \<in> set fs. \<exists>u user. sbtm_get (usersStorage st) u = Some user \<and>
          0 < ?cnt u \<and> f = featuredOf newDate now st u user) \<and>
      (\<forall>u user. sbtm_get (usersStorage st) u = Some user \<and> 0 < ?cnt u \<longrightarrow>
          featuredOf newDate now st u user \<in> set fs \<or>
          (length fs = 5 \<and> (\<forall>f \<in> set fs. ?cnt u \<le> FeaturedSwapper.booksSwapped f)))"
    if "getFeaturedSwappers newDate now st = Ok fs" for fs
  proof -
    from that res have fs: "fs = R" "R \<noteq> []" by (auto split: if_splits)
    show ?thesis unfolding fs(1) using fs(2) len descR entries top by blast
  qed
  from A B C show ?thesis by blast
qed

theorem getFeaturedSwappers_spec_witness:
  "map SwapRequest.status (sbtm_values (swapRequestsStorage (run staleCalls)))
     = [''Pending'', ''Completed'', ''Completed''] \<and>
   filter (inMonthWindow exampleDate (exampleDate t2))
     (sbtm_values (swapRequestsStorage (run staleCalls))) = [] \<and>
   getFeaturedSwappers exampleDate (exampleDate t2) (run staleCalls)
     = Err (NotFound ''No featured swappers found for this month.'') \<and>
   map (\<lambda>r. (SwapRequest.status r, SwapRequest.createdAt r))
       (sbtm_values (swapRequestsStorage (run featuredCalls)))
     = [(''Completed'', t1), (''Completed'', t2), (''Completed'', t2),
        (''Completed'', tApril), (''Completed'', tLastYear), (''Pending'', t2)] \<and>
   sbtm_get (usersStorage (run featuredCalls)) uA \<noteq> None \<and>
   0 < completedSwapsOf exampleDate (exampleDate t2) (run featuredCalls) uA \<and>
   completedSwapsOf exampleDate (exampleDate t2) (run featuredCalls) uA = 3 \<and>
   completedSwapsOf exampleDate (exampleDate t2) (run featuredCalls) uB = 1 \<and>
   getFeaturedSwappers exampleDate (exampleDate t2) (run featuredCalls)
     = Ok [annFeatured, bobFeatured] \<and>
   length [annFeatured, bobFeatured] \<le> 5 \<and>
   sorted_wrt (\<lambda>a b. FeaturedSwapper.booksSwapped a \<ge> FeaturedSwapper.booksSwapped b)
     [annFeatured, bobFeatured]"
proof -
  have s1: "map SwapRequest.status (sbtm_values (swapRequestsStorage (run staleCalls)))
     = [''Pending'', ''Completed'', ''Completed'']"
    by code_simp
  have h1: "filter (inMonthWindow exampleDate (exampleDate t2))
      (sbtm_values (swapRequestsStorage (run staleCalls))) = []"
    by code_simp
  have s2: "map (\<lambda>r. (SwapRequest.status r, SwapRequest.createdAt r))
       (sbtm_values (swapRequestsStorage (run featuredCalls)))
     = [(''Completed'', t1), (''Completed'', t2), (''Completed'', t2),
        (''Completed'', tApril), (''Completed'', tLastYear), (''Pending'', t2)]"
    by code_simp
  have c: "sbtm_get (usersStorage (run featuredCalls)) uA \<noteq> None \<and>
      0 < completedSwapsOf exampleDate (exampleDate t2) (run featuredCalls) uA \<and>
      completedSwapsOf exampleDate (exampleDate t2) (run featuredCalls) uA = 3 \<and>
      completedSwapsOf exampleDate (exampleDate t2) (run featuredCalls) uB = 1"
    by code_simp
  have ev: "getFeaturedSwappers exampleDate (exampleDate t2) (run featuredCalls)
      = Ok [annFeatured, bobFeatured]"
    by code_simp
  note none = getFeaturedSwappers_spec [where st = "run staleCalls" and newDate = exampleDate
      and now = "exampleDate t2", THEN conjunct1, THEN mp, OF h1]
  note some = getFeaturedSwappers_spec [where st = "run featuredCalls" and newDate = exampleDate
      and now = "exampleDate t2", THEN conjunct2, THEN conjunct2, THEN spec, THEN mp, OF ev]
  from s1 h1 s2 c ev none some show ?thesis by blast
qed

section \<open>Feedback\<close>

lemma exec_feedback_keys:
  "set (map fst (feedbackStorage (exec st c))) \<subseteq> set (map fst (feedbackStorage st)) \<union> set (uuidOf c)"
proof (cases c)
  case (CreateFeedback uuid nowIso payload)
  then show ?thesis
    using keys_sbtm_insert [of uuid _ "feedbackStorage st"]
    by (auto simp: createFeedback_def Let_def simp del: set_map)
next
  case (UpdateFeedback caller payload)
  show ?thesis
  proof (cases "sbtm_get (feedbackStorage st) (toText caller)")
    case None
    with UpdateFeedback show ?thesis by (simp add: updateFeedback_def Let_def)
  next
    case (Some f)
    from sbtm_get_Some_key [OF Some] have "toText caller \<in> set (map fst (feedbackStorage st))" .
    with UpdateFeedback Some show ?thesis
      using keys_sbtm_insert [of "toText caller" _ "feedbackStorage st"]
      by (auto simp: updateFeedback_def Let_def simp del: set_map)
  qed
next
  case (DeleteFeedback k)
  then show ?thesis
    using keys_sbtm_remove [of k "feedbackStorage st"]
    by (auto simp: deleteFeedback_def simp del: set_map split: option.splits)
qed (auto simp: createUserProfile_def updateUserProfile_def listBook_def updateBook_def
      createSwapRequest_def updateSwapRequest_def acceptSwapRequest_def
      rejectSwapRequest_def deleteBook_def deleteSwapRequest_def Let_def
      split: option.splits)

lemma run_feedback_keys: "set (map fst (feedbackStorage (run cs))) \<subseteq> set (uuids cs)"
proof (induction cs rule: rev_induct)
  case Nil
  then show ?case by (simp add: run_def init_def)
next
  case (snoc c cs)
  with exec_feedback_keys [of "run cs" c] show ?case
    unfolding run_snoc uuids_def by auto
qed

text \<open>
  C10. \<open>updateFeedback\<close> looks the feedback up under the text of the caller's principal.
  With a payload that has a rating and a comment it returns \<open>NotFound\<close>, and changes
  nothing, whenever no feedback is stored under that text. After every sequence of calls
  the keys of the feedback store are identifiers \<open>uuidv4()\<close> supplied to \<open>createFeedback\<close>, so
  for a caller whose principal text is none of the identifiers supplied, \<open>updateFeedback\<close>
  returns \<open>NotFound\<close>: it never reaches a feedback that \<open>createFeedback\<close> stored.
\<close>

theorem updateFeedback_never_finds:
  assumes "FeedbackPayload.rating p \<noteq> 0" and "FeedbackPayload.comment p \<noteq> []"
  shows "(sbtm_get (feedbackStorage st) (toText caller) = None \<longrightarrow>
            updateFeedback st caller p = (Err (NotFound ''Feedback not found''), st)) \<and>
         (toText caller \<notin> set (uuids cs) \<longrightarrow>
            updateFeedback (run cs) caller p = (Err (NotFound ''Feedback not found''), run cs))"
proof -
  have a: "sbtm_get (feedbackStorage s) (toText caller) = None \<Longrightarrow>
            updateFeedback s caller p = (Err (NotFound ''Feedback not found''), s)" for s
    using assms by (simp add: updateFeedback_def)
  have "sbtm_get (feedbackStorage (run cs)) (toText caller) = None"
    if "toText caller \<notin> set (uuids cs)"
  proof (cases "sbtm_get (feedbackStorage (run cs)) (toText caller)")
    case (Some f)
    from sbtm_get_Some_key [OF Some] run_feedback_keys [of cs] that show ?thesis by blast
  qed simp
  with a show ?thesis by blast
qed

theorem updateFeedback_never_finds_witness:
  "FeedbackPayload.rating praise \<noteq> 0 \<and> FeedbackPayload.comment praise \<noteq> [] \<and>
   sbtm_get (feedbackStorage (run feedbackCalls)) fb1 \<noteq> None \<and>
   sbtm_get (feedbackStorage (run feedbackCalls)) (toText anon) = None \<and>
   toText anon \<notin> set (uuids feedbackCalls) \<and>
   updateFeedback (run feedbackCalls) anon praise
     = (Err (NotFound ''Feedback not found''), run feedbackCalls)"
proof -
  have h1: "FeedbackPayload.rating praise \<noteq> 0" by code_simp
  have h2: "FeedbackPayload.comment praise \<noteq> []" by code_simp
  have h3: "sbtm_get (feedbackStorage (run feedbackCalls)) fb1 \<noteq> None" by code_simp
  have h4: "toText anon \<notin> set (uuids feedbackCalls)" by code_simp
  have h5: "sbtm_get (feedbackStorage (run feedbackCalls)) (toText anon) = None" by code_simp
  from h1 h2 h3 h4 h5
    updateFeedback_never_finds [OF h1 h2, of "run feedbackCalls" anon feedbackCalls]
  show ?thesis by blast
qed

end
